theory Spec2Isabelle
  imports Complex_Main
begin

section \<open>JavaScript values, strings and objects\<close>

text \<open>
  The repository holds three Express servers that are variants of one text-to-speech
  pipeline: \<^verbatim>\<open>src/s8.js\<close> (the variant that saves audio permanently), the first
  document of \<^verbatim>\<open>src/unnamed/part_000\<close> (lines 1-258, called variant A below) and
  its second document (lines 259-676, variant B).

  A request body is parsed JSON, so its fields are JSON values; a field that is absent
  reads as \<^verbatim>\<open>undefined\<close>. Property lookups on object literals can also return a
  function or an object inherited from \<^verbatim>\<open>Object.prototype\<close>.
  Strings are lists of code units; the model covers the code units below 256, on which
  \<^verbatim>\<open>length\<close>, \<^verbatim>\<open>trim\<close> and \<^verbatim>\<open>toLowerCase\<close> are written out exactly.
\<close>

datatype jsval =
    JUndefined
  | JNull
  | JBool bool
  | JNum rat
  | JStr string
  | JArr "jsval list"
  | JObj "(string \<times> jsval) list"
  | JFunction string

datatype js_error = TypeError string | Error string

fun message :: "js_error \<Rightarrow> string" where
  "message (TypeError m) = m"
| "message (Error m) = m"

text \<open>How a promise (or a callback that may throw) ends.\<close>

datatype 'a settled = Resolved 'a | Rejected js_error | Uncaught js_error

fun truthy :: "jsval \<Rightarrow> bool" where
  "truthy JUndefined = False"
| "truthy JNull = False"
| "truthy (JBool b) = b"
| "truthy (JNum n) = (n \<noteq> 0)"
| "truthy (JStr s) = (s \<noteq> [])"
| "truthy (JArr _) = True"
| "truthy (JObj _) = True"
| "truthy (JFunction _) = True"

fun typeof :: "jsval \<Rightarrow> string" where
  "typeof JUndefined = ''undefined''"
| "typeof JNull = ''object''"
| "typeof (JBool _) = ''boolean''"
| "typeof (JNum _) = ''number''"
| "typeof (JStr _) = ''string''"
| "typeof (JArr _) = ''object''"
| "typeof (JObj _) = ''object''"
| "typeof (JFunction _) = ''function''"

fun str_of :: "jsval \<Rightarrow> string" where
  "str_of (JStr s) = s"
| "str_of _ = []"

definition js_or :: "jsval \<Rightarrow> jsval \<Rightarrow> jsval" where
  "js_or a b = (if truthy a then a else b)"

definition js_whitespace :: "char \<Rightarrow> bool" where
  "js_whitespace c =
     (c \<in> set [CHR 0x09, CHR 0x0A, CHR 0x0B, CHR 0x0C, CHR 0x0D, CHR 0x20, CHR 0xA0])"

definition trim :: "string \<Rightarrow> string" where
  "trim s = rev (dropWhile js_whitespace (rev (dropWhile js_whitespace s)))"

definition upper_chars :: string where
  "upper_chars = ''ABCDEFGHIJKLMNOPQRSTUVWXYZ'' @
     [CHR 0xC0, CHR 0xC1, CHR 0xC2, CHR 0xC3, CHR 0xC4, CHR 0xC5, CHR 0xC6, CHR 0xC7,
      CHR 0xC8, CHR 0xC9, CHR 0xCA, CHR 0xCB, CHR 0xCC, CHR 0xCD, CHR 0xCE, CHR 0xCF,
      CHR 0xD0, CHR 0xD1, CHR 0xD2, CHR 0xD3, CHR 0xD4, CHR 0xD5, CHR 0xD6,
      CHR 0xD8, CHR 0xD9, CHR 0xDA, CHR 0xDB, CHR 0xDC, CHR 0xDD, CHR 0xDE]"

definition lower_chars :: string where
  "lower_chars = ''abcdefghijklmnopqrstuvwxyz'' @
     [CHR 0xE0, CHR 0xE1, CHR 0xE2, CHR 0xE3, CHR 0xE4, CHR 0xE5, CHR 0xE6, CHR 0xE7,
      CHR 0xE8, CHR 0xE9, CHR 0xEA, CHR 0xEB, CHR 0xEC, CHR 0xED, CHR 0xEE, CHR 0xEF,
      CHR 0xF0, CHR 0xF1, CHR 0xF2, CHR 0xF3, CHR 0xF4, CHR 0xF5, CHR 0xF6,
      CHR 0xF8, CHR 0xF9, CHR 0xFA, CHR 0xFB, CHR 0xFC, CHR 0xFD, CHR 0xFE]"

definition lower_char :: "char \<Rightarrow> char" where
  "lower_char c = (case map_of (zip upper_chars lower_chars) c of Some l \<Rightarrow> l | None \<Rightarrow> c)"

text \<open>
  \<^verbatim>\<open>v.toLowerCase()\<close>: only a string has the method; on any other value the call
  throws a TypeError (a JSON value cannot hold a function).
\<close>

definition toLowerCase :: "jsval \<Rightarrow> js_error + string" where
  "toLowerCase v = (case v of
       JStr s \<Rightarrow> Inr (map lower_char s)
     | _ \<Rightarrow> Inl (TypeError ''toLowerCase is not a function''))"

text \<open>
  \<^verbatim>\<open>obj[key]\<close> on an object literal with string values: an own property if there
  is one, otherwise what \<^verbatim>\<open>Object.prototype\<close> provides under that name.
\<close>

definition prototype_methods :: "string list" where
  "prototype_methods = [''constructor'', ''hasOwnProperty'', ''isPrototypeOf'',
     ''propertyIsEnumerable'', ''toLocaleString'', ''toString'', ''valueOf'',
     ''__defineGetter__'', ''__defineSetter__'', ''__lookupGetter__'', ''__lookupSetter__'']"

definition js_get :: "(string \<times> string) list \<Rightarrow> string \<Rightarrow> jsval" where
  "js_get obj key = (case map_of obj key of
       Some v \<Rightarrow> JStr v
     | None \<Rightarrow> if key \<in> set prototype_methods then JFunction key
               else if key = ''__proto__'' then JObj []
               else JUndefined)"

text \<open>
  \<^verbatim>\<open>obj[v]\<close> for a value \<open>v\<close> that may not be a string: the key is \<open>String(v)\<close>,
  which for \<^verbatim>\<open>undefined\<close>, a function or an object names no property of the
  tables below.
\<close>

definition js_index :: "(string \<times> string) list \<Rightarrow> jsval \<Rightarrow> jsval" where
  "js_index obj v = (case v of JStr k \<Rightarrow> js_get obj k | _ \<Rightarrow> JUndefined)"

text \<open>
  Converting a value to a number or a string (\<^verbatim>\<open>Math.round(v)\<close>, a template
  string, \<^verbatim>\<open>String(v)\<close>) throws a TypeError for a data object whose own
  \<^verbatim>\<open>toString\<close> property shadows the inherited method, and for an array that holds
  one; every other value converts.
\<close>

fun conversion_throws :: "jsval \<Rightarrow> bool" where
  "conversion_throws (JObj kvs) = (''toString'' \<in> set (map fst kvs))"
| "conversion_throws (JArr vs) = (\<exists>v \<in> set vs. conversion_throws v)"
| "conversion_throws _ = False"

text \<open>
  A header value is refused (a TypeError) when its text holds a character outside tab,
  \<^verbatim>\<open>0x20\<close>-\<^verbatim>\<open>0x7e\<close> and \<^verbatim>\<open>0x80\<close>-\<^verbatim>\<open>0xff\<close>; only a string, or an array that
  holds one, can bring such a character.
\<close>

definition header_char_ok :: "char \<Rightarrow> bool" where
  "header_char_ok c =
     (c \<notin> set [CHR 0x00, CHR 0x01, CHR 0x02, CHR 0x03, CHR 0x04, CHR 0x05, CHR 0x06, CHR 0x07,
                CHR 0x08, CHR 0x0A, CHR 0x0B, CHR 0x0C, CHR 0x0D, CHR 0x0E, CHR 0x0F,
                CHR 0x10, CHR 0x11, CHR 0x12, CHR 0x13, CHR 0x14, CHR 0x15, CHR 0x16, CHR 0x17,
                CHR 0x18, CHR 0x19, CHR 0x1A, CHR 0x1B, CHR 0x1C, CHR 0x1D, CHR 0x1E, CHR 0x1F,
                CHR 0x7F])"

fun header_unsafe :: "jsval \<Rightarrow> bool" where
  "header_unsafe (JStr s) = (\<exists>c \<in> set s. \<not> header_char_ok c)"
| "header_unsafe (JArr vs) = (\<exists>v \<in> set vs. header_unsafe v)"
| "header_unsafe _ = False"

text \<open>
  Numbers are IEEE doubles. The file counter only ever holds integers; they are exact up
  to \<open>2^53\<close>, where adding one rounds back to \<open>2^53\<close>. Integers below \<open>10^21\<close> print
  as plain decimal digits in a template string.
\<close>

definition js_incr :: "nat \<Rightarrow> nat" where
  "js_incr n = (if n < 2 ^ 53 then n + 1 else n)"

fun show_number :: "nat \<Rightarrow> string" where
  "show_number n = (if n < 10 then [''0123456789'' ! n]
     else show_number (n div 10) @ [''0123456789'' ! (n mod 10)])"

declare show_number.simps [simp del]

section \<open>Paths (Node's posix \<^verbatim>\<open>path\<close> module)\<close>

fun split_on :: "char \<Rightarrow> string \<Rightarrow> string list" where
  "split_on c [] = [[]]"
| "split_on c (x # xs) =
     (if x = c then [] # split_on c xs
      else (case split_on c xs of [] \<Rightarrow> [[x]] | s # ss \<Rightarrow> (x # s) # ss))"

fun join_with :: "char \<Rightarrow> string list \<Rightarrow> string" where
  "join_with c [] = []"
| "join_with c [s] = s"
| "join_with c (s # t # ss) = s @ c # join_with c (t # ss)"

text \<open>\<^verbatim>\<open>normalizeString\<close>: the stack of kept segments is held in reverse.\<close>

fun normalizeString :: "bool \<Rightarrow> string list \<Rightarrow> string list \<Rightarrow> string list" where
  "normalizeString allowAboveRoot acc [] = rev acc"
| "normalizeString allowAboveRoot acc (s # ss) =
     (if s = [] \<or> s = ''.'' then normalizeString allowAboveRoot acc ss
      else if s = ''..'' then
        (case acc of
           a # as \<Rightarrow>
             if a \<noteq> ''..'' then normalizeString allowAboveRoot as ss
             else normalizeString allowAboveRoot (s # acc) ss
         | [] \<Rightarrow>
             if allowAboveRoot then normalizeString allowAboveRoot [s] ss
             else normalizeString allowAboveRoot [] ss)
      else normalizeString allowAboveRoot (s # acc) ss)"

definition normalize :: "string \<Rightarrow> string" where
  "normalize p =
     (if p = [] then ''.''
      else
        let isAbsolute = (hd p = CHR ''/'');
            trailingSeparator = (last p = CHR ''/'');
            q = join_with CHR ''/'' (normalizeString (\<not> isAbsolute) [] (split_on CHR ''/'' p))
        in if q = [] then (if isAbsolute then ''/'' else if trailingSeparator then ''./'' else ''.'')
           else (if isAbsolute then ''/'' else []) @ q @ (if trailingSeparator then ''/'' else []))"

definition path_join :: "string \<Rightarrow> string \<Rightarrow> string" where
  "path_join a b =
     (if a = [] \<and> b = [] then ''.''
      else normalize (if a = [] then b else if b = [] then a else a @ CHR ''/'' # b))"


text \<open>
  Directories are written relative to \<^verbatim>\<open>__dirname\<close>, the directory of the script.
\<close>

definition TEMP_DIR :: string where
  "TEMP_DIR = path_join [] ''temp''"

definition SAVED_DIR :: string where
  "SAVED_DIR = path_join [] ''saved_audio''"

section \<open>The process state: file counter and file system\<close>

type_synonym bytes = "char list"

record world =
  fileIndex :: nat
  files :: "string \<rightharpoonup> bytes"

definition existsSync :: "string \<Rightarrow> world \<Rightarrow> bool" where
  "existsSync p w = (files w p \<noteq> None)"

definition unlinkSync :: "string \<Rightarrow> world \<Rightarrow> js_error + world" where
  "unlinkSync p w =
     (if existsSync p w then Inr (w\<lparr>files := (files w)(p := None)\<rparr>)
      else Inl (Error ''ENOENT: no such file or directory, unlink''))"

definition copyFileSync :: "string \<Rightarrow> string \<Rightarrow> world \<Rightarrow> js_error + world" where
  "copyFileSync src dest w =
     (case files w src of
        None \<Rightarrow> Inl (Error ''ENOENT: no such file or directory, copyfile'')
      | Some b \<Rightarrow> Inr (w\<lparr>files := (files w)(dest \<mapsto> b)\<rparr>))"

definition statSync_size :: "string \<Rightarrow> world \<Rightarrow> js_error + nat" where
  "statSync_size p w =
     (case files w p of
        None \<Rightarrow> Inl (Error ''ENOENT: no such file or directory, stat'')
      | Some b \<Rightarrow> Inr (length b))"

definition readFileSync :: "string \<Rightarrow> world \<Rightarrow> js_error + bytes" where
  "readFileSync p w =
     (case files w p of
        None \<Rightarrow> Inl (Error ''ENOENT: no such file or directory, open'')
      | Some b \<Rightarrow> Inr b)"

text \<open>
  The release step, \<^verbatim>\<open>tempFiles.forEach(f => fs.existsSync(f) && fs.unlinkSync(f))\<close>.
\<close>

fun release :: "string list \<Rightarrow> world \<Rightarrow> world" where
  "release [] w = w"
| "release (f # fs) w =
     release fs (if existsSync f w then w\<lparr>files := (files w)(f := None)\<rparr> else w)"

section \<open>External tools\<close>

text \<open>
  The speech engine (\<^verbatim>\<open>node-gtts\<close>) and the media tool (\<^verbatim>\<open>fluent-ffmpeg\<close>) are
  black boxes. A run that writes a file either succeeds, leaving the audio at its output
  path, or fails with a message, having possibly left a partial file there. The
  environment of one request fixes how each tool answers each call.
\<close>

datatype tool_outcome = ToolOk bytes | ToolFail string "bytes option"

record ffmpeg_cmd =
  ffmpeg_input :: string
  toFormat :: string
  audioCodec :: string
  audioChannels :: nat
  audioFrequency :: nat
  ffmpeg_save :: string

text \<open>
  The probe's callback receives \<^verbatim>\<open>(err, metadata)\<close>; the code reads
  \<^verbatim>\<open>metadata.format.duration\<close>, where the metadata and its format may be missing
  and the duration is whatever value the tool delivers: a number, a string such as
  \<^verbatim>\<open>N/A\<close> when the tool does not know the duration, or \<^verbatim>\<open>undefined\<close> when the
  field is absent. The metadata is data parsed from the tool's output, so it holds no
  function.
\<close>

datatype ffformat = Format jsval

datatype metadata = NoMetadata | Metadata "ffformat option"

datatype probe_outcome = ProbeErr string | ProbeOk metadata

record env =
  gtts :: "jsval \<Rightarrow> jsval \<Rightarrow> tool_outcome"
  ffmpeg :: "ffmpeg_cmd \<Rightarrow> tool_outcome"
  ffprobe :: "string \<Rightarrow> probe_outcome"

definition tool_writes :: "string \<Rightarrow> tool_outcome \<Rightarrow> world \<Rightarrow> unit settled \<times> world" where
  "tool_writes p out w =
     (case out of
        ToolOk b \<Rightarrow> (Resolved (), w\<lparr>files := (files w)(p \<mapsto> b)\<rparr>)
      | ToolFail m left \<Rightarrow>
          (Rejected (Error m),
           case left of None \<Rightarrow> w | Some b \<Rightarrow> w\<lparr>files := (files w)(p \<mapsto> b)\<rparr>))"

section \<open>Language settings\<close>

text \<open>\<^verbatim>\<open>s8.js\<close> lines 14-25 and variant A lines 14-27 are the same text.\<close>

definition LANGUAGE_MAP :: "(string \<times> string) list" where
  "LANGUAGE_MAP =
     [(''english'', ''en''), (''hindi'', ''hi''), (''arabic'', ''ar''), (''telugu'', ''te''),
      (''bengali'', ''bn''), (''urdu'', ''ur''), (''spanish'', ''es''),
      (''en'', ''en''), (''hi'', ''hi''), (''ar'', ''ar''), (''te'', ''te''),
      (''bn'', ''bn''), (''ur'', ''ur''), (''es'', ''es'')]"

definition LANGUAGE_NAMES :: "(string \<times> string) list" where
  "LANGUAGE_NAMES =
     [(''en'', ''English''), (''hi'', ''Hindi''), (''ar'', ''Arabic''), (''te'', ''Telugu''),
      (''bn'', ''Bengali''), (''ur'', ''Urdu''), (''es'', ''Spanish'')]"

definition SUPPORTED_FORMATS :: "string list" where
  "SUPPORTED_FORMATS = [''mp3'', ''wav'']"

text \<open>Variant B, lines 273-278.\<close>

definition B_LANGUAGE_MAP :: "(string \<times> string) list" where
  "B_LANGUAGE_MAP = [(''hindi'', ''hi''), (''english'', ''en''), (''hi'', ''hi''), (''en'', ''en'')]"

section \<open>Helper functions\<close>

text \<open>
  \<^verbatim>\<open>getAudioDuration\<close> of \<^verbatim>\<open>s8.js\<close> (lines 39-50) and of variant A (lines 38-49):
  the promise has no reject path, and \<^verbatim>\<open>metadata?.format?.duration || 5\<close> resolves
  every truthy duration as it is, whatever its type.
\<close>

definition optional_duration :: "metadata \<Rightarrow> jsval" where
  "optional_duration md =
     (case md of
        NoMetadata \<Rightarrow> JUndefined
      | Metadata None \<Rightarrow> JUndefined
      | Metadata (Some (Format d)) \<Rightarrow> d)"

definition getAudioDuration :: "(string \<Rightarrow> probe_outcome) \<Rightarrow> string \<Rightarrow> jsval settled" where
  "getAudioDuration probe filePath =
     (case probe filePath of
        ProbeErr err \<Rightarrow> Resolved (JNum 5)
      | ProbeOk md \<Rightarrow>
          let duration = js_or (optional_duration md) (JNum 5)
          in Resolved duration)"

text \<open>
  \<^verbatim>\<open>getAudioDuration\<close> of variant B (lines 293-304) rejects on a probe error and
  reads \<^verbatim>\<open>metadata.format.duration\<close> without guards, inside the probe's callback.
\<close>

definition B_getAudioDuration :: "(string \<Rightarrow> probe_outcome) \<Rightarrow> string \<Rightarrow> jsval settled" where
  "B_getAudioDuration probe filePath =
     (case probe filePath of
        ProbeErr err \<Rightarrow> Rejected (Error err)
      | ProbeOk md \<Rightarrow>
          (case md of
             NoMetadata \<Rightarrow> Uncaught (TypeError ''Cannot read properties of undefined (reading format)'')
           | Metadata None \<Rightarrow> Uncaught (TypeError ''Cannot read properties of undefined (reading duration)'')
           | Metadata (Some (Format d)) \<Rightarrow> Resolved d))"

text \<open>\<^verbatim>\<open>convertToWav\<close>: the options of the command, and the run of the tool.\<close>

definition wav_options :: "string \<Rightarrow> string \<Rightarrow> ffmpeg_cmd" where
  "wav_options inputPath outputPath =
     \<lparr>ffmpeg_input = inputPath, toFormat = ''wav'', audioCodec = ''pcm_s16le'',
      audioChannels = 1, audioFrequency = 22050, ffmpeg_save = outputPath\<rparr>"

definition convertToWav :: "env \<Rightarrow> string \<Rightarrow> string \<Rightarrow> world \<Rightarrow> unit settled \<times> world" where
  "convertToWav e inputPath outputPath w =
     tool_writes outputPath (ffmpeg e (wav_options inputPath outputPath)) w"

definition B_wav_options :: "string \<Rightarrow> string \<Rightarrow> ffmpeg_cmd" where
  "B_wav_options inputPath outputPath =
     \<lparr>ffmpeg_input = inputPath, toFormat = ''wav'', audioCodec = ''pcm_s16le'',
      audioChannels = 2, audioFrequency = 44100, ffmpeg_save = outputPath\<rparr>"

definition B_convertToWav :: "env \<Rightarrow> string \<Rightarrow> string \<Rightarrow> world \<Rightarrow> unit settled \<times> world" where
  "B_convertToWav e inputPath outputPath w =
     tool_writes outputPath (ffmpeg e (B_wav_options inputPath outputPath)) w"

definition generateSpeech :: "env \<Rightarrow> jsval \<Rightarrow> jsval \<Rightarrow> string \<Rightarrow> world \<Rightarrow> unit settled \<times> world" where
  "generateSpeech e text_arg langCode_arg outputPath_arg w =
     tool_writes outputPath_arg (gtts e langCode_arg text_arg) w"

definition validateText :: "jsval \<Rightarrow> string option" where
  "validateText v =
     (if \<not> truthy v \<or> typeof v \<noteq> ''string'' \<or> \<not> truthy (JStr (trim (str_of v)))
      then Some ''Invalid text''
      else if length (str_of v) > 5000 then Some ''Text too long (max 5000 chars)''
      else None)"

section \<open>Requests, responses and suspended handlers\<close>

record tts_request =
  req_text :: jsval
  req_lang :: jsval
  req_file :: jsval

record file_info =
  fi_filename :: string
  fi_format :: string
  fi_duration :: jsval
  fi_size :: nat
  fi_language :: jsval
  fi_language_name :: jsval
  fi_text_length :: nat

text \<open>
  A response is an error document (status, \<^verbatim>\<open>error\<close>, \<^verbatim>\<open>message\<close> if any), a
  success document (with the audio bytes and content type when they are embedded), or
  a stream (content type, further headers, body). A numeric duration is kept as probed;
  its rounded and formatted renderings and the timestamp are left out.
\<close>

datatype response =
    JsonError nat string "string option"
  | JsonOk file_info "(bytes \<times> string) option"
  | AudioStream string "(string \<times> jsval) list" bytes

fun status :: "response \<Rightarrow> nat" where
  "status (JsonError n _ _) = n"
| "status (JsonOk _ _) = 200"
| "status (AudioStream _ _ _) = 200"

text \<open>
  What a finished handler leaves: the response sent (none if the process died first)
  and the files whose deletion it scheduled on a one-second timer.
\<close>

record outcome =
  sent :: "response option"
  deferred :: "string list"

text \<open>The local variables of a handler that live across an \<^verbatim>\<open>await\<close>.\<close>

record locals =
  body_text :: jsval
  format :: string
  langCode :: jsval
  langName :: jsval
  fileId :: string
  filename :: string
  currentIndex :: nat
  mp3Path :: string
  outputPath :: string
  mimeType :: string
  tempFiles :: "string list"

datatype call =
    GenerateSpeech jsval jsval string
  | ConvertToWav string string
  | GetAudioDuration string

datatype task = Await call locals | Done outcome

definition respond :: "response \<Rightarrow> string list \<Rightarrow> task" where
  "respond r d = Done \<lparr>sent = Some r, deferred = d\<rparr>"

definition crashed :: task where
  "crashed = Done \<lparr>sent = None, deferred = []\<rparr>"

definition grace_elapsed :: "task \<Rightarrow> world \<Rightarrow> world" where
  "grace_elapsed t w = (case t of Done out \<Rightarrow> release (deferred out) w | Await _ _ \<Rightarrow> w)"

section \<open>\<^verbatim>\<open>s8.js\<close>: POST /api/tts, generate and save permanently\<close>

text \<open>
  Each handler is an \<^verbatim>\<open>async\<close> function. It is written as the synchronous piece from
  its start to the first \<^verbatim>\<open>await\<close>, and one continuation per awaited helper, which
  takes how the helper settled and runs to the next \<^verbatim>\<open>await\<close> or to the end. A
  \<^verbatim>\<open>throw\<close> or a rejection inside \<^verbatim>\<open>try\<close> goes to the handler's \<^verbatim>\<open>catch\<close>.
\<close>

definition s8_catch :: "js_error \<Rightarrow> world \<Rightarrow> task \<times> world" where
  "s8_catch err w = (respond (JsonError 500 (message err) None) [], w)"

definition s8_tts_begin :: "tts_request \<Rightarrow> string \<Rightarrow> world \<Rightarrow> task \<times> world" where
  "s8_tts_begin req uuid w =
     (case validateText (req_text req) of
        Some textError \<Rightarrow> (respond (JsonError 400 textError None) [], w)
      | None \<Rightarrow>
     (case toLowerCase (js_or (req_lang req) (JStr ''english'')) of
        Inl err \<Rightarrow> s8_catch err w
      | Inr language \<Rightarrow>
     (case toLowerCase (js_or (req_file req) (JStr ''mp3'')) of
        Inl err \<Rightarrow> s8_catch err w
      | Inr fmt \<Rightarrow>
          if \<not> truthy (js_get LANGUAGE_MAP language)
          then (respond (JsonError 400 ''Unsupported language'' None) [], w)
          else if fmt \<notin> set SUPPORTED_FORMATS
          then (respond (JsonError 400 ''Unsupported format'' None) [], w)
          else
            let lc = js_get LANGUAGE_MAP language;
                ln = js_index LANGUAGE_NAMES lc;
                name = ''tts_'' @ show_number (fileIndex w) @ ''.'' @ fmt;
                w' = w\<lparr>fileIndex := js_incr (fileIndex w)\<rparr>;
                tempMp3 = path_join TEMP_DIR (uuid @ ''.mp3'')
            in (Await (GenerateSpeech (req_text req) lc tempMp3)
                  \<lparr>body_text = req_text req, format = fmt, langCode = lc, langName = ln,
                   fileId = uuid, filename = name, currentIndex = fileIndex w,
                   mp3Path = tempMp3, outputPath = tempMp3, mimeType = [],
                   tempFiles = []\<rparr>, w'))))"

text \<open>
  Lines 119-123: copy the final file into the saved directory, delete the temporary one,
  then probe the saved copy. \<open>outputPath\<close> holds the source's \<^verbatim>\<open>finalPath\<close>.
\<close>

definition s8_persist :: "locals \<Rightarrow> world \<Rightarrow> task \<times> world" where
  "s8_persist l w =
     (let savePath = path_join SAVED_DIR (filename l) in
      case copyFileSync (outputPath l) savePath w of
        Inl err \<Rightarrow> s8_catch err w
      | Inr w1 \<Rightarrow>
     (case unlinkSync (outputPath l) w1 of
        Inl err \<Rightarrow> s8_catch err w1
      | Inr w2 \<Rightarrow> (Await (GetAudioDuration savePath) l, w2)))"

definition s8_after_speech :: "unit settled \<Rightarrow> locals \<Rightarrow> world \<Rightarrow> task \<times> world" where
  "s8_after_speech r l w =
     (case r of
        Rejected err \<Rightarrow> s8_catch err w
      | Uncaught err \<Rightarrow> (crashed, w)
      | Resolved _ \<Rightarrow>
          if format l = ''wav''
          then let wavPath = path_join TEMP_DIR (fileId l @ ''.wav'')
               in (Await (ConvertToWav (mp3Path l) wavPath) l, w)
          else s8_persist l w)"

definition s8_after_wav :: "unit settled \<Rightarrow> locals \<Rightarrow> world \<Rightarrow> task \<times> world" where
  "s8_after_wav r l w =
     (case r of
        Rejected err \<Rightarrow> s8_catch err w
      | Uncaught err \<Rightarrow> (crashed, w)
      | Resolved _ \<Rightarrow>
          let wavPath = path_join TEMP_DIR (fileId l @ ''.wav'') in
          case unlinkSync (mp3Path l) w of
            Inl err \<Rightarrow> s8_catch err w
          | Inr w1 \<Rightarrow> s8_persist (l\<lparr>outputPath := wavPath\<rparr>) w1)"

text \<open>
  Lines 123-140. Only a number has \<^verbatim>\<open>toFixed\<close>: on any other duration the call
  \<^verbatim>\<open>duration.toFixed(2)\<close> throws while the response document is built.
\<close>

definition s8_after_duration :: "jsval settled \<Rightarrow> locals \<Rightarrow> world \<Rightarrow> task \<times> world" where
  "s8_after_duration r l w =
     (case r of
        Rejected err \<Rightarrow> s8_catch err w
      | Uncaught err \<Rightarrow> (crashed, w)
      | Resolved duration \<Rightarrow>
          let savePath = path_join SAVED_DIR (filename l) in
          case statSync_size savePath w of
            Inl err \<Rightarrow> s8_catch err w
          | Inr sz \<Rightarrow>
              if typeof duration \<noteq> ''number''
              then s8_catch (TypeError ''duration.toFixed is not a function'') w
              else
              (respond (JsonOk \<lparr>fi_filename = filename l, fi_format = format l,
                                fi_duration = duration, fi_size = sz,
                                fi_language = langCode l, fi_language_name = langName l,
                                fi_text_length = length (str_of (body_text l))\<rparr> None) [], w))"

definition s8_resume :: "env \<Rightarrow> call \<Rightarrow> locals \<Rightarrow> world \<Rightarrow> task \<times> world" where
  "s8_resume e c l w =
     (case c of
        GenerateSpeech t lc p \<Rightarrow>
          (case generateSpeech e t lc p w of (r, w1) \<Rightarrow> s8_after_speech r l w1)
      | ConvertToWav i out \<Rightarrow>
          (case convertToWav e i out w of (r, w1) \<Rightarrow> s8_after_wav r l w1)
      | GetAudioDuration p \<Rightarrow> s8_after_duration (getAudioDuration (ffprobe e) p) l w)"


section \<open>Variant A: POST /api/tts, return the audio file directly\<close>

definition A_tts_catch :: "js_error \<Rightarrow> string list \<Rightarrow> world \<Rightarrow> task \<times> world" where
  "A_tts_catch err temps w =
     (respond (JsonError 500 ''Internal Server Error'' (Some (message err))) [],
      release temps w)"

definition A_tts_begin :: "tts_request \<Rightarrow> string \<Rightarrow> world \<Rightarrow> task \<times> world" where
  "A_tts_begin req uuid w =
     (case validateText (req_text req) of
        Some textError \<Rightarrow> (respond (JsonError 400 textError None) [], w)
      | None \<Rightarrow>
     (case toLowerCase (js_or (req_lang req) (JStr ''english'')) of
        Inl err \<Rightarrow> A_tts_catch err [] w
      | Inr language \<Rightarrow>
     (case toLowerCase (js_or (req_file req) (JStr ''mp3'')) of
        Inl err \<Rightarrow> A_tts_catch err [] w
      | Inr fmt \<Rightarrow>
          if \<not> truthy (js_get LANGUAGE_MAP language)
          then (respond (JsonError 400 ''Unsupported language'' None) [], w)
          else if fmt \<notin> set SUPPORTED_FORMATS
          then (respond (JsonError 400 ''Unsupported format'' None) [], w)
          else
            let lc = js_get LANGUAGE_MAP language;
                ln = js_index LANGUAGE_NAMES lc;
                name = ''t2a_'' @ show_number (fileIndex w) @ ''.'' @ fmt;
                w' = w\<lparr>fileIndex := js_incr (fileIndex w)\<rparr>;
                mp3 = path_join TEMP_DIR (uuid @ ''.mp3'')
            in (Await (GenerateSpeech (req_text req) lc mp3)
                  \<lparr>body_text = req_text req, format = fmt, langCode = lc, langName = ln,
                   fileId = uuid, filename = name, currentIndex = fileIndex w,
                   mp3Path = mp3, outputPath = mp3, mimeType = ''audio/mpeg'',
                   tempFiles = [mp3]\<rparr>, w'))))"

definition A_tts_after_speech :: "unit settled \<Rightarrow> locals \<Rightarrow> world \<Rightarrow> task \<times> world" where
  "A_tts_after_speech r l w =
     (case r of
        Rejected err \<Rightarrow> A_tts_catch err (tempFiles l) w
      | Uncaught err \<Rightarrow> (crashed, w)
      | Resolved _ \<Rightarrow>
          if format l = ''wav''
          then let wavPath = path_join TEMP_DIR (fileId l @ ''.wav'')
               in (Await (ConvertToWav (mp3Path l) wavPath) l, w)
          else (Await (GetAudioDuration (outputPath l)) l, w))"

definition A_tts_after_wav :: "unit settled \<Rightarrow> locals \<Rightarrow> world \<Rightarrow> task \<times> world" where
  "A_tts_after_wav r l w =
     (case r of
        Rejected err \<Rightarrow> A_tts_catch err (tempFiles l) w
      | Uncaught err \<Rightarrow> (crashed, w)
      | Resolved _ \<Rightarrow>
          let wavPath = path_join TEMP_DIR (fileId l @ ''.wav'');
              l' = l\<lparr>outputPath := wavPath, mimeType := ''audio/wav'',
                     tempFiles := tempFiles l @ [wavPath]\<rparr>
          in (Await (GetAudioDuration wavPath) l', w))"

text \<open>
  Lines 123-139: \<^verbatim>\<open>Math.round(duration)\<close> converts the duration, the file is
  measured, the headers are set (the duration as it is), and the file is streamed.
\<close>

definition A_tts_after_duration :: "jsval settled \<Rightarrow> locals \<Rightarrow> world \<Rightarrow> task \<times> world" where
  "A_tts_after_duration r l w =
     (case r of
        Rejected err \<Rightarrow> A_tts_catch err (tempFiles l) w
      | Uncaught err \<Rightarrow> (crashed, w)
      | Resolved duration \<Rightarrow>
          if conversion_throws duration
          then A_tts_catch (TypeError ''Cannot convert object to primitive value'')
                 (tempFiles l) w
          else
         (case statSync_size (outputPath l) w of
            Inl err \<Rightarrow> A_tts_catch err (tempFiles l) w
          | Inr sz \<Rightarrow>
              if header_unsafe duration
              then A_tts_catch (TypeError ''Invalid character in header content'')
                     (tempFiles l) w
              else
         (case readFileSync (outputPath l) w of
            Inl err \<Rightarrow> A_tts_catch err (tempFiles l) w
          | Inr content \<Rightarrow>
              (respond (AudioStream (mimeType l)
                          [(''Content-Disposition'',
                              JStr (''attachment; filename='' @ CHR 0x22 # filename l @ [CHR 0x22])),
                           (''X-Audio-Duration'', duration),
                           (''X-File-Size'', JNum (of_nat sz))]
                          content)
                       (tempFiles l), w))))"

definition A_tts_resume :: "env \<Rightarrow> call \<Rightarrow> locals \<Rightarrow> world \<Rightarrow> task \<times> world" where
  "A_tts_resume e c l w =
     (case c of
        GenerateSpeech t lc p \<Rightarrow>
          (case generateSpeech e t lc p w of (r, w1) \<Rightarrow> A_tts_after_speech r l w1)
      | ConvertToWav i out \<Rightarrow>
          (case convertToWav e i out w of (r, w1) \<Rightarrow> A_tts_after_wav r l w1)
      | GetAudioDuration p \<Rightarrow> A_tts_after_duration (getAudioDuration (ffprobe e) p) l w)"

section \<open>Variant A: POST /api/tts/complete, return JSON with base64 audio\<close>

definition A_complete_catch :: "js_error \<Rightarrow> string list \<Rightarrow> world \<Rightarrow> task \<times> world" where
  "A_complete_catch err temps w =
     (respond (JsonError 500 (message err) None) [], release temps w)"

definition A_complete_begin :: "tts_request \<Rightarrow> string \<Rightarrow> world \<Rightarrow> task \<times> world" where
  "A_complete_begin req uuid w =
     (case validateText (req_text req) of
        Some textError \<Rightarrow> (respond (JsonError 400 textError None) [], w)
      | None \<Rightarrow>
     (case toLowerCase (js_or (req_lang req) (JStr ''english'')) of
        Inl err \<Rightarrow> A_complete_catch err [] w
      | Inr language \<Rightarrow>
     (case toLowerCase (js_or (req_file req) (JStr ''mp3'')) of
        Inl err \<Rightarrow> A_complete_catch err [] w
      | Inr fmt \<Rightarrow>
          let lc = js_get LANGUAGE_MAP language;
              ln = js_index LANGUAGE_NAMES lc;
              name = ''t2a_'' @ show_number (fileIndex w) @ ''.'' @ fmt;
              w' = w\<lparr>fileIndex := js_incr (fileIndex w)\<rparr>;
              mp3 = path_join TEMP_DIR (uuid @ ''.mp3'')
          in (Await (GenerateSpeech (req_text req) lc mp3)
                \<lparr>body_text = req_text req, format = fmt, langCode = lc, langName = ln,
                 fileId = uuid, filename = name, currentIndex = fileIndex w,
                 mp3Path = mp3, outputPath = mp3, mimeType = ''audio/mpeg'',
                 tempFiles = [mp3]\<rparr>, w'))))"

definition A_complete_after_speech :: "unit settled \<Rightarrow> locals \<Rightarrow> world \<Rightarrow> task \<times> world" where
  "A_complete_after_speech r l w =
     (case r of
        Rejected err \<Rightarrow> A_complete_catch err (tempFiles l) w
      | Uncaught err \<Rightarrow> (crashed, w)
      | Resolved _ \<Rightarrow>
          if format l = ''wav''
          then let wavPath = path_join TEMP_DIR (fileId l @ ''.wav'')
               in (Await (ConvertToWav (mp3Path l) wavPath) l, w)
          else (Await (GetAudioDuration (outputPath l)) l, w))"

definition A_complete_after_wav :: "unit settled \<Rightarrow> locals \<Rightarrow> world \<Rightarrow> task \<times> world" where
  "A_complete_after_wav r l w =
     (case r of
        Rejected err \<Rightarrow> A_complete_catch err (tempFiles l) w
      | Uncaught err \<Rightarrow> (crashed, w)
      | Resolved _ \<Rightarrow>
          let wavPath = path_join TEMP_DIR (fileId l @ ''.wav'');
              l' = l\<lparr>outputPath := wavPath, mimeType := ''audio/wav'',
                     tempFiles := tempFiles l @ [wavPath]\<rparr>
          in (Await (GetAudioDuration wavPath) l', w))"

text \<open>
  Lines 176-200: \<^verbatim>\<open>Math.round(duration)\<close>, the file is measured and read, and
  \<^verbatim>\<open>duration.toFixed(2)\<close> is called while the response document is built.
\<close>

definition A_complete_after_duration :: "jsval settled \<Rightarrow> locals \<Rightarrow> world \<Rightarrow> task \<times> world" where
  "A_complete_after_duration r l w =
     (case r of
        Rejected err \<Rightarrow> A_complete_catch err (tempFiles l) w
      | Uncaught err \<Rightarrow> (crashed, w)
      | Resolved duration \<Rightarrow>
          if conversion_throws duration
          then A_complete_catch (TypeError ''Cannot convert object to primitive value'')
                 (tempFiles l) w
          else
         (case statSync_size (outputPath l) w of
            Inl err \<Rightarrow> A_complete_catch err (tempFiles l) w
          | Inr sz \<Rightarrow>
         (case readFileSync (outputPath l) w of
            Inl err \<Rightarrow> A_complete_catch err (tempFiles l) w
          | Inr content \<Rightarrow>
              if typeof duration \<noteq> ''number''
              then A_complete_catch (TypeError ''duration.toFixed is not a function'')
                     (tempFiles l) w
              else
              (respond (JsonOk \<lparr>fi_filename = filename l, fi_format = format l,
                                fi_duration = duration, fi_size = sz,
                                fi_language = langCode l, fi_language_name = langName l,
                                fi_text_length = length (str_of (body_text l))\<rparr>
                          (Some (content, mimeType l)))
                       (tempFiles l), w))))"

definition A_complete_resume :: "env \<Rightarrow> call \<Rightarrow> locals \<Rightarrow> world \<Rightarrow> task \<times> world" where
  "A_complete_resume e c l w =
     (case c of
        GenerateSpeech t lc p \<Rightarrow>
          (case generateSpeech e t lc p w of (r, w1) \<Rightarrow> A_complete_after_speech r l w1)
      | ConvertToWav i out \<Rightarrow>
          (case convertToWav e i out w of (r, w1) \<Rightarrow> A_complete_after_wav r l w1)
      | GetAudioDuration p \<Rightarrow>
          A_complete_after_duration (getAudioDuration (ffprobe e) p) l w)"

section \<open>Variant B: POST /api/tts and POST /api/tts/json\<close>

text \<open>
  Both handlers of variant B release the tracked files in \<^verbatim>\<open>catch\<close> and answer 500
  with the error's message (lines 447-467 and 566-585; no response has been sent at any
  point that can throw). Their text up to the first \<^verbatim>\<open>await\<close> is the same (lines
  348-385 and 475-512).
\<close>

definition B_catch :: "js_error \<Rightarrow> string list \<Rightarrow> world \<Rightarrow> task \<times> world" where
  "B_catch err temps w =
     (respond (JsonError 500 (if message err = [] then ''Internal server error''
                              else message err) None) [],
      release temps w)"

definition B_begin :: "tts_request \<Rightarrow> string \<Rightarrow> world \<Rightarrow> task \<times> world" where
  "B_begin req uuid w =
     (if \<not> truthy (req_text req)
      then (respond (JsonError 400 ''Text field is required and cannot be empty'' None) [], w)
      else if typeof (req_text req) \<noteq> ''string''
      then B_catch (TypeError ''text.trim is not a function'') [] w
      else if trim (str_of (req_text req)) = []
      then (respond (JsonError 400 ''Text field is required and cannot be empty'' None) [], w)
      else
     (case toLowerCase (js_or (req_lang req) (JStr ''english'')) of
        Inl err \<Rightarrow> B_catch err [] w
      | Inr language \<Rightarrow>
     (case toLowerCase (js_or (req_file req) (JStr ''mp3'')) of
        Inl err \<Rightarrow> B_catch err [] w
      | Inr fmt \<Rightarrow>
          if \<not> truthy (js_get B_LANGUAGE_MAP language)
          then (respond (JsonError 400 (''Unsupported language: '' @ language) None) [], w)
          else if fmt \<notin> set SUPPORTED_FORMATS
          then (respond (JsonError 400 (''Unsupported file format: '' @ fmt) None) [], w)
          else
            let lc = js_get B_LANGUAGE_MAP language;
                idx = fileIndex w;
                w' = w\<lparr>fileIndex := js_incr (fileIndex w)\<rparr>;
                name = ''t2a_'' @ show_number idx @ ''.'' @ fmt;
                mp3 = path_join TEMP_DIR (uuid @ ''.mp3'')
            in (Await (GenerateSpeech (req_text req) lc mp3)
                  \<lparr>body_text = req_text req, format = fmt, langCode = lc,
                   langName = JUndefined, fileId = uuid, filename = name,
                   currentIndex = idx, mp3Path = mp3, outputPath = mp3,
                   mimeType = ''audio/mpeg'', tempFiles = [mp3]\<rparr>, w'))))"

text \<open>
  An exception that no handler catches (one thrown inside the probe's callback) ends the
  process, and the \<^verbatim>\<open>exit\<close> hook (lines 665-676) deletes every entry of the
  temporary directory.
\<close>

definition in_dir :: "string \<Rightarrow> string \<Rightarrow> bool" where
  "in_dir d p =
     (take (length d + 1) p = d @ ''/'' \<and>
      drop (length d + 1) p \<noteq> [] \<and> CHR ''/'' \<notin> set (drop (length d + 1) p))"

definition B_exit :: "world \<Rightarrow> world" where
  "B_exit w = w\<lparr>files := (\<lambda>p. if in_dir TEMP_DIR p then None else files w p)\<rparr>"

text \<open>Lines 401-407: the existence check before the duration is probed.\<close>

definition B_check_output :: "locals \<Rightarrow> world \<Rightarrow> task \<times> world" where
  "B_check_output l w =
     (if \<not> existsSync (outputPath l) w
      then B_catch (Error ''Output file was not created'') (tempFiles l) w
      else (Await (GetAudioDuration (outputPath l)) l, w))"

definition B_after_speech :: "unit settled \<Rightarrow> locals \<Rightarrow> world \<Rightarrow> task \<times> world" where
  "B_after_speech r l w =
     (case r of
        Rejected err \<Rightarrow> B_catch err (tempFiles l) w
      | Uncaught err \<Rightarrow> (crashed, B_exit w)
      | Resolved _ \<Rightarrow>
          if format l = ''wav''
          then let wavPath = path_join TEMP_DIR (fileId l @ ''.wav'');
                   l' = l\<lparr>tempFiles := tempFiles l @ [wavPath]\<rparr>
               in (Await (ConvertToWav (mp3Path l) wavPath) l', w)
          else B_check_output l w)"

definition B_after_wav :: "unit settled \<Rightarrow> locals \<Rightarrow> world \<Rightarrow> task \<times> world" where
  "B_after_wav r l w =
     (case r of
        Rejected err \<Rightarrow> B_catch err (tempFiles l) w
      | Uncaught err \<Rightarrow> (crashed, B_exit w)
      | Resolved _ \<Rightarrow>
          let wavPath = path_join TEMP_DIR (fileId l @ ''.wav'')
          in B_check_output (l\<lparr>outputPath := wavPath, mimeType := ''audio/wav''\<rparr>) w)"

text \<open>
  POST /api/tts, after the duration (lines 408-445). The duration is logged in a template
  string, then set as a header: setting a header to \<^verbatim>\<open>undefined\<close> throws. A failure
  to open the file for streaming is answered by the stream's error handler.
\<close>

definition B_tts_after_duration :: "jsval settled \<Rightarrow> locals \<Rightarrow> world \<Rightarrow> task \<times> world" where
  "B_tts_after_duration r l w =
     (case r of
        Rejected err \<Rightarrow> B_catch err (tempFiles l) w
      | Uncaught err \<Rightarrow> (crashed, B_exit w)
      | Resolved duration \<Rightarrow>
          if conversion_throws duration
          then B_catch (TypeError ''Cannot convert object to primitive value'') (tempFiles l) w
          else if duration = JUndefined
          then B_catch (TypeError ''Invalid value undefined for header X-Audio-Duration'')
                 (tempFiles l) w
          else if header_unsafe duration
          then B_catch (TypeError ''Invalid character in header content'') (tempFiles l) w
          else
         (case readFileSync (outputPath l) w of
            Inl err \<Rightarrow> (respond (JsonError 500 ''Error reading file'' None) (tempFiles l), w)
          | Inr content \<Rightarrow>
              (respond (AudioStream (mimeType l)
                          [(''Content-Disposition'',
                              JStr (''attachment; filename='' @ CHR 0x22 # filename l @ [CHR 0x22])),
                           (''X-Audio-Duration'', duration),
                           (''X-Filename'', JStr (filename l)),
                           (''X-File-Index'', JNum (of_nat (currentIndex l)))]
                          content)
                       (tempFiles l), w)))"

definition B_tts_resume :: "env \<Rightarrow> call \<Rightarrow> locals \<Rightarrow> world \<Rightarrow> task \<times> world" where
  "B_tts_resume e c l w =
     (case c of
        GenerateSpeech t lc p \<Rightarrow>
          (case generateSpeech e t lc p w of (r, w1) \<Rightarrow> B_after_speech r l w1)
      | ConvertToWav i out \<Rightarrow>
          (case B_convertToWav e i out w of (r, w1) \<Rightarrow> B_after_wav r l w1)
      | GetAudioDuration p \<Rightarrow> B_tts_after_duration (B_getAudioDuration (ffprobe e) p) l w)"

text \<open>
  POST /api/tts/json, after the duration (lines 533-564): it is logged in a template
  string and put into the response document as it is.
\<close>

definition B_json_after_duration :: "jsval settled \<Rightarrow> locals \<Rightarrow> world \<Rightarrow> task \<times> world" where
  "B_json_after_duration r l w =
     (case r of
        Rejected err \<Rightarrow> B_catch err (tempFiles l) w
      | Uncaught err \<Rightarrow> (crashed, B_exit w)
      | Resolved duration \<Rightarrow>
          if conversion_throws duration
          then B_catch (TypeError ''Cannot convert object to primitive value'') (tempFiles l) w
          else
         (case readFileSync (outputPath l) w of
            Inl err \<Rightarrow> B_catch err (tempFiles l) w
          | Inr audioBuffer \<Rightarrow>
              (respond (JsonOk \<lparr>fi_filename = filename l, fi_format = format l,
                                fi_duration = duration, fi_size = length audioBuffer,
                                fi_language = JUndefined, fi_language_name = JUndefined,
                                fi_text_length = length (str_of (body_text l))\<rparr>
                          (Some (audioBuffer, mimeType l)))
                       (tempFiles l), w)))"

definition B_json_resume :: "env \<Rightarrow> call \<Rightarrow> locals \<Rightarrow> world \<Rightarrow> task \<times> world" where
  "B_json_resume e c l w =
     (case c of
        GenerateSpeech t lc p \<Rightarrow>
          (case generateSpeech e t lc p w of (r, w1) \<Rightarrow> B_after_speech r l w1)
      | ConvertToWav i out \<Rightarrow>
          (case B_convertToWav e i out w of (r, w1) \<Rightarrow> B_after_wav r l w1)
      | GetAudioDuration p \<Rightarrow> B_json_after_duration (B_getAudioDuration (ffprobe e) p) l w)"

section \<open>Running a request, and the event loop\<close>

datatype endpoint = S8_tts | A_tts | A_complete | B_tts | B_json

fun begin_request :: "endpoint \<Rightarrow> tts_request \<Rightarrow> string \<Rightarrow> world \<Rightarrow> task \<times> world" where
  "begin_request S8_tts = s8_tts_begin"
| "begin_request A_tts = A_tts_begin"
| "begin_request A_complete = A_complete_begin"
| "begin_request B_tts = B_begin"
| "begin_request B_json = B_begin"

fun resume :: "endpoint \<Rightarrow> env \<Rightarrow> call \<Rightarrow> locals \<Rightarrow> world \<Rightarrow> task \<times> world" where
  "resume S8_tts = s8_resume"
| "resume A_tts = A_tts_resume"
| "resume A_complete = A_complete_resume"
| "resume B_tts = B_tts_resume"
| "resume B_json = B_json_resume"

text \<open>One step of a suspended handler: the awaited helper settles and the handler runs on.\<close>

fun advance :: "endpoint \<Rightarrow> env \<Rightarrow> task \<Rightarrow> world \<Rightarrow> task \<times> world" where
  "advance ep e (Done out) w = (Done out, w)"
| "advance ep e (Await c l) w = resume ep e c l w"

text \<open>
  A request served alone: a handler awaits at most three helpers (speech, conversion,
  duration), so three steps finish it (lemma \<open>handle_finishes\<close>).
\<close>

definition handle :: "endpoint \<Rightarrow> tts_request \<Rightarrow> string \<Rightarrow> env \<Rightarrow> world \<Rightarrow> task \<times> world" where
  "handle ep req uuid e w =
     (case begin_request ep req uuid w of (t0, w0) \<Rightarrow>
      case advance ep e t0 w0 of (t1, w1) \<Rightarrow>
      case advance ep e t1 w1 of (t2, w2) \<Rightarrow>
      advance ep e t2 w2)"

text \<open>
  The event loop interleaves requests at their \<^verbatim>\<open>await\<close>s: an event is the arrival
  of a request, which runs its handler up to the first \<^verbatim>\<open>await\<close>, or the settling
  of the helper some suspended handler waits for. \<open>issued\<close> lists the file indices put
  into filenames, in order. The cleanup timers only delete files and are not events of
  the loop.
\<close>

record server =
  state :: world
  tasks :: "(endpoint \<times> task) list"
  issued :: "nat list"






text \<open>
  What holds of a suspended handler of the request with identifier \<open>uuid\<close>: its paths
  are built from that identifier, and a pending conversion reads the request's MP3 and
  writes the request's WAV.
\<close>

definition wav_call_ok :: "string \<Rightarrow> task \<Rightarrow> bool" where
  "wav_call_ok uuid t =
     (case t of
        Done _ \<Rightarrow> True
      | Await c l \<Rightarrow>
          fileId l = uuid \<and> mp3Path l = path_join TEMP_DIR (uuid @ ''.mp3'') \<and>
          (case c of
             ConvertToWav i out \<Rightarrow> i = mp3Path l \<and> out = path_join TEMP_DIR (uuid @ ''.wav'')
           | _ \<Rightarrow> True))"

text \<open>A handler that ended without a success response: an error document, or none.\<close>

definition failed :: "task \<Rightarrow> bool" where
  "failed t =
     (case t of
        Await _ _ \<Rightarrow> False
      | Done out \<Rightarrow> (case sent out of
                       None \<Rightarrow> True
                     | Some (JsonError _ _ _) \<Rightarrow> True
                     | Some _ \<Rightarrow> False))"

text \<open>How many helpers a handler may still await.\<close>

fun awaits_left :: "task \<Rightarrow> nat" where
  "awaits_left (Done out) = 0"
| "awaits_left (Await (GenerateSpeech t lc p) l) = 3"
| "awaits_left (Await (ConvertToWav i out) l) = 2"
| "awaits_left (Await (GetAudioDuration p) l) = 1"

text \<open>
  The temporary files of the request with identifier \<open>uuid\<close> are tracked: whichever
  of them exists is on the handler's release list (on the timer's list once the handler
  has finished), and so is the file a pending helper is about to write.
\<close>

definition tracked :: "string \<Rightarrow> task \<Rightarrow> world \<Rightarrow> bool" where
  "tracked uuid t w =
     (let P = {path_join TEMP_DIR (uuid @ ''.mp3''), path_join TEMP_DIR (uuid @ ''.wav'')} in
      case t of
        Await c l \<Rightarrow>
          (\<forall>p \<in> P. files w p \<noteq> None \<longrightarrow> p \<in> set (tempFiles l)) \<and>
          fileId l = uuid \<and> mp3Path l = path_join TEMP_DIR (uuid @ ''.mp3'') \<and>
          (case c of
             GenerateSpeech _ _ q \<Rightarrow> q \<in> set (tempFiles l)
           | ConvertToWav _ q \<Rightarrow> q \<in> set (tempFiles l)
           | GetAudioDuration _ \<Rightarrow> True)
      | Done out \<Rightarrow> (\<forall>p \<in> P. files w p \<noteq> None \<longrightarrow> p \<in> set (deferred out)))"

section \<open>Basic facts\<close>

lemma TEMP_DIR_eq: "TEMP_DIR = ''temp''"
  by (simp add: TEMP_DIR_def path_join_def normalize_def)


text \<open>Paths of plain names.\<close>

lemma split_on_plain: "c \<notin> set s \<Longrightarrow> split_on c s = [s]"
  by (induction s) auto

lemma split_on_append: "c \<notin> set a \<Longrightarrow> split_on c (a @ c # b) = a # split_on c b"
  by (induction a) auto

lemma path_join_plain:
  assumes "CHR ''/'' \<notin> set d" "d \<noteq> []" "d \<noteq> ''.''" "d \<noteq> ''..''"
      and "CHR ''/'' \<notin> set n" "n \<noteq> []" "n \<noteq> ''.''" "n \<noteq> ''..''"
  shows "path_join d n = d @ CHR ''/'' # n"
proof -
  have sp: "split_on CHR ''/'' (d @ CHR ''/'' # n) = [d, n]"
    using assms by (simp add: split_on_append split_on_plain)
  have hd: "hd (d @ CHR ''/'' # n) \<noteq> CHR ''/''"
    using assms by (cases d) auto
  have la: "last (d @ CHR ''/'' # n) \<noteq> CHR ''/''"
    using assms by (cases n rule: rev_cases) auto
  show ?thesis
    using assms sp hd la by (simp add: path_join_def normalize_def Let_def)
qed



lemma temp_path:
  assumes "CHR ''/'' \<notin> set uuid" and "ext = ''.mp3'' \<or> ext = ''.wav''"
  shows "path_join TEMP_DIR (uuid @ ext) = ''temp/'' @ uuid @ ext"
proof -
  have "path_join ''temp'' (uuid @ ext) = ''temp'' @ CHR ''/'' # (uuid @ ext)"
    using assms by (intro path_join_plain) (auto simp: append_eq_Cons_conv)
  then show ?thesis by (simp add: TEMP_DIR_eq)
qed




text \<open>Unfolding sets for evaluating the model on concrete requests.\<close>

lemmas js_defs = js_or_def header_char_ok_def toLowerCase_def js_get_def js_index_def lower_char_def upper_chars_def
  lower_chars_def trim_def js_whitespace_def validateText_def prototype_methods_def js_incr_def
  LANGUAGE_MAP_def LANGUAGE_NAMES_def B_LANGUAGE_MAP_def SUPPORTED_FORMATS_def

lemmas fs_defs = existsSync_def unlinkSync_def copyFileSync_def statSync_size_def readFileSync_def
  tool_writes_def generateSpeech_def convertToWav_def B_convertToWav_def wav_options_def
  B_wav_options_def getAudioDuration_def B_getAudioDuration_def optional_duration_def
  path_join_def normalize_def TEMP_DIR_def SAVED_DIR_def respond_def crashed_def grace_elapsed_def

lemmas handler_defs = handle_def s8_tts_begin_def s8_catch_def s8_persist_def s8_after_speech_def
  s8_after_wav_def s8_after_duration_def s8_resume_def
  A_tts_begin_def A_tts_catch_def A_tts_after_speech_def A_tts_after_wav_def
  A_tts_after_duration_def A_tts_resume_def
  A_complete_begin_def A_complete_catch_def A_complete_after_speech_def A_complete_after_wav_def
  A_complete_after_duration_def A_complete_resume_def
  B_begin_def B_catch_def B_check_output_def B_after_speech_def B_after_wav_def
  B_tts_after_duration_def B_tts_resume_def B_json_after_duration_def B_json_resume_def

section \<open>Every request is answered within three steps\<close>

lemma awaits_left_Done: "awaits_left t = 0 \<Longrightarrow> \<exists>out. t = Done out"
  by (cases t rule: awaits_left.cases) simp_all

lemma begin_awaits_left: "awaits_left (fst (begin_request ep req uuid w)) \<le> 3"
  by (cases ep)
     (auto simp: s8_tts_begin_def A_tts_begin_def A_complete_begin_def B_begin_def
        s8_catch_def A_tts_catch_def A_complete_catch_def B_catch_def respond_def Let_def
        split: option.splits sum.splits)

lemma s8_persist_awaits_left [simp]: "awaits_left (fst (s8_persist l w)) \<le> 1"
  by (auto simp: s8_persist_def s8_catch_def respond_def Let_def split: sum.splits)

lemma B_check_output_awaits_left [simp]: "awaits_left (fst (B_check_output l w)) \<le> 1"
  by (auto simp: B_check_output_def B_catch_def respond_def)

lemma resume_awaits_left:
  "awaits_left (fst (resume ep e c l w)) < awaits_left (Await c l)"
proof (cases ep)
  case S8_tts
  then show ?thesis
    by (cases c)
       (auto simp: s8_resume_def s8_after_speech_def s8_after_wav_def s8_after_duration_def
          s8_catch_def respond_def crashed_def Let_def le_imp_less_Suc less_Suc_eq_le
          intro: le_less_trans [OF s8_persist_awaits_left]
          split: prod.splits settled.splits sum.splits)
next
  case A_tts
  then show ?thesis
    by (cases c)
       (auto simp: A_tts_resume_def A_tts_after_speech_def A_tts_after_wav_def
          A_tts_after_duration_def A_tts_catch_def respond_def crashed_def Let_def
          split: prod.splits settled.splits sum.splits)
next
  case A_complete
  then show ?thesis
    by (cases c)
       (auto simp: A_complete_resume_def A_complete_after_speech_def A_complete_after_wav_def
          A_complete_after_duration_def A_complete_catch_def respond_def crashed_def Let_def
          split: prod.splits settled.splits sum.splits)
next
  case B_tts
  then show ?thesis
    by (cases c)
       (auto simp: B_tts_resume_def B_after_speech_def B_after_wav_def
          B_tts_after_duration_def B_catch_def respond_def crashed_def Let_def
          intro: le_less_trans [OF B_check_output_awaits_left]
          split: prod.splits settled.splits sum.splits option.splits)
next
  case B_json
  then show ?thesis
    by (cases c)
       (auto simp: B_json_resume_def B_after_speech_def B_after_wav_def
          B_json_after_duration_def B_catch_def respond_def crashed_def Let_def
          intro: le_less_trans [OF B_check_output_awaits_left]
          split: prod.splits settled.splits sum.splits)
qed

lemma advance_awaits_left:
  "awaits_left (fst (advance ep e t w)) \<le> awaits_left t - 1"
proof (cases t)
  case (Await c l)
  with resume_awaits_left [of ep e c l w] show ?thesis by simp
next
  case (Done out)
  then show ?thesis by simp
qed

lemma handle_finishes: "\<exists>out. fst (handle ep req uuid e w) = Done out"
proof -
  obtain t0 w0 where b: "begin_request ep req uuid w = (t0, w0)"
    by (cases "begin_request ep req uuid w")
  obtain t1 w1 where a1: "advance ep e t0 w0 = (t1, w1)"
    by (cases "advance ep e t0 w0")
  obtain t2 w2 where a2: "advance ep e t1 w1 = (t2, w2)"
    by (cases "advance ep e t1 w1")
  obtain t3 w3 where a3: "advance ep e t2 w2 = (t3, w3)"
    by (cases "advance ep e t2 w2")
  from begin_awaits_left [of ep req uuid w] b have "awaits_left t0 \<le> 3" by simp
  with advance_awaits_left [of ep e t0 w0] a1 have "awaits_left t1 \<le> 2" by simp
  with advance_awaits_left [of ep e t1 w1] a2 have "awaits_left t2 \<le> 1" by simp
  with advance_awaits_left [of ep e t2 w2] a3 have "awaits_left t3 = 0" by simp
  then obtain out where "t3 = Done out"
    using awaits_left_Done by blast
  with b a1 a2 a3 show ?thesis
    by (simp add: handle_def)
qed

section \<open>The duration probe\<close>

text \<open>
  The duration helper of \<^verbatim>\<open>s8.js\<close> and of variant A always resolves and never
  rejects. It resolves with the number 5 when the probe fails and when the probe succeeds
  with a missing, zero or otherwise falsy duration; every truthy duration is resolved
  unchanged, so the result is a number exactly when the probed duration is falsy or a
  number.
\<close>

lemma getAudioDuration_settles:
  "(\<exists>d. getAudioDuration probe filePath = Resolved d) \<and>
   (\<forall>err. probe filePath = ProbeErr err \<longrightarrow>
          getAudioDuration probe filePath = Resolved (JNum 5)) \<and>
   (\<forall>md. probe filePath = ProbeOk md \<and> \<not> truthy (optional_duration md) \<longrightarrow>
         getAudioDuration probe filePath = Resolved (JNum 5)) \<and>
   (\<forall>md. probe filePath = ProbeOk md \<and> truthy (optional_duration md) \<longrightarrow>
         getAudioDuration probe filePath = Resolved (optional_duration md))"
  by (auto simp: getAudioDuration_def js_or_def Let_def split: probe_outcome.splits)

lemma getAudioDuration_numeric_iff:
  assumes "probe filePath = ProbeOk md"
  shows "(\<exists>n. getAudioDuration probe filePath = Resolved (JNum n)) \<longleftrightarrow>
         (\<not> truthy (optional_duration md) \<or> (\<exists>n. optional_duration md = JNum n))"
  using assms by (auto simp: getAudioDuration_def js_or_def Let_def)

lemma getAudioDuration_missing_or_zero:
  "getAudioDuration (\<lambda>p. ProbeOk NoMetadata) filePath = Resolved (JNum 5)"
  "getAudioDuration (\<lambda>p. ProbeOk (Metadata None)) filePath = Resolved (JNum 5)"
  "getAudioDuration (\<lambda>p. ProbeOk (Metadata (Some (Format JUndefined)))) filePath
     = Resolved (JNum 5)"
  "getAudioDuration (\<lambda>p. ProbeOk (Metadata (Some (Format (JNum 0))))) filePath
     = Resolved (JNum 5)"
  "getAudioDuration (\<lambda>p. ProbeErr err) filePath = Resolved (JNum 5)"
  by (simp_all add: getAudioDuration_def optional_duration_def js_or_def)

text \<open>
  Claim C10. The claim says that the helper resolves with a numeric value for every input
  and that a zero-length file is reported as 5 seconds. The helper has no type check: when
  the probe succeeds and delivers the string \<^verbatim>\<open>N/A\<close> for a duration the tool does
  not know, the string is truthy, and the helper of
  \<^verbatim>\<open>s8.js\<close> and of variant A resolves with that string, not with 5 and not with a
  number. The callers take the result for a number: in \<^verbatim>\<open>s8.js\<close> the call
  \<^verbatim>\<open>duration.toFixed(2)\<close> throws, and the WAV request below is answered 500 after
  its audio has been saved as \<^verbatim>\<open>saved_audio/tts_1.wav\<close>; the JSON endpoint of
  variant A answers 500 in the same way.
\<close>

theorem duration_probe_resolves_non_number:
  "getAudioDuration (\<lambda>p. ProbeOk (Metadata (Some (Format (JStr ''N/A'')))))
     ''saved_audio/tts_1.wav'' = Resolved (JStr ''N/A'') \<and>
   typeof (JStr ''N/A'') \<noteq> ''number'' \<and>
   (case handle S8_tts \<lparr>req_text = JStr ''hi'', req_lang = JUndefined, req_file = JStr ''wav''\<rparr>
      ''u1''
      \<lparr>gtts = (\<lambda>lc t. ToolOk ''ID3''), ffmpeg = (\<lambda>c. ToolOk ''RIFF''),
       ffprobe = (\<lambda>p. ProbeOk (Metadata (Some (Format (JStr ''N/A'')))))\<rparr>
      \<lparr>fileIndex = 1, files = Map.empty\<rparr>
    of (t, w) \<Rightarrow>
      t = respond (JsonError 500 ''duration.toFixed is not a function'' None) [] \<and>
      files w ''saved_audio/tts_1.wav'' = Some ''RIFF'') \<and>
   fst (handle A_complete
      \<lparr>req_text = JStr ''hi'', req_lang = JUndefined, req_file = JStr ''wav''\<rparr>
      ''u1''
      \<lparr>gtts = (\<lambda>lc t. ToolOk ''ID3''), ffmpeg = (\<lambda>c. ToolOk ''RIFF''),
       ffprobe = (\<lambda>p. ProbeOk (Metadata (Some (Format (JStr ''N/A'')))))\<rparr>
      \<lparr>fileIndex = 1, files = Map.empty\<rparr>)
     = respond (JsonError 500 ''duration.toFixed is not a function'' None) []"
  by (simp add: js_defs fs_defs handler_defs Let_def show_number.simps)

section \<open>The language directory\<close>

text \<open>No key is written twice in a table, so the first entry of a key is the only one.\<close>

lemma language_keys_distinct:
  "distinct (map fst LANGUAGE_MAP)" "distinct (map fst LANGUAGE_NAMES)"
  "distinct (map fst B_LANGUAGE_MAP)"
  by (simp_all add: LANGUAGE_MAP_def LANGUAGE_NAMES_def B_LANGUAGE_MAP_def)

text \<open>
  Claim C8. Every alias of the language map (full name or short code) resolves to a
  canonical code that resolves to itself, and in \<^verbatim>\<open>s8.js\<close> and variant A that code has
  exactly one entry in the display-name table. Variant B has the map (idempotent as
  well) and no display-name table.
\<close>

theorem language_directory_consistent:
  "(\<forall>(alias, code) \<in> set LANGUAGE_MAP.
      js_get LANGUAGE_MAP alias = JStr code \<and> js_get LANGUAGE_MAP code = JStr code \<and>
      length (filter (\<lambda>(c, n). c = code) LANGUAGE_NAMES) = 1 \<and>
      (\<exists>name. js_get LANGUAGE_NAMES code = JStr name)) \<and>
   (\<forall>(alias, code) \<in> set B_LANGUAGE_MAP.
      js_get B_LANGUAGE_MAP alias = JStr code \<and> js_get B_LANGUAGE_MAP code = JStr code)"
  by (simp add: LANGUAGE_MAP_def LANGUAGE_NAMES_def B_LANGUAGE_MAP_def js_get_def)

theorem language_directory_consistent_witness:
  "(''hindi'', ''hi'') \<in> set LANGUAGE_MAP \<and>
   js_get LANGUAGE_MAP ''hindi'' = JStr ''hi'' \<and> js_get LANGUAGE_MAP ''hi'' = JStr ''hi'' \<and>
   length (filter (\<lambda>(c, n). c = ''hi'') LANGUAGE_NAMES) = 1 \<and>
   (\<exists>name. js_get LANGUAGE_NAMES ''hi'' = JStr name) \<and>
   (''english'', ''en'') \<in> set B_LANGUAGE_MAP \<and>
   js_get B_LANGUAGE_MAP ''english'' = JStr ''en'' \<and> js_get B_LANGUAGE_MAP ''en'' = JStr ''en''"
proof -
  have a: "(''hindi'', ''hi'') \<in> set LANGUAGE_MAP"
    by (simp add: LANGUAGE_MAP_def)
  have b: "(''english'', ''en'') \<in> set B_LANGUAGE_MAP"
    by (simp add: B_LANGUAGE_MAP_def)
  from language_directory_consistent a b show ?thesis
    by fastforce
qed

section \<open>The file counter\<close>

text \<open>No helper, file operation or continuation of any handler writes the counter.\<close>

lemma fileIndex_release [simp]: "fileIndex (release fs w) = fileIndex w"
  by (induction fs arbitrary: w) auto


lemma fileIndex_unlinkSync: "unlinkSync p w = Inr w' \<Longrightarrow> fileIndex w' = fileIndex w"
  by (auto simp: unlinkSync_def split: if_splits)

lemma fileIndex_copyFileSync: "copyFileSync a b w = Inr w' \<Longrightarrow> fileIndex w' = fileIndex w"
  by (auto simp: copyFileSync_def split: option.splits)

lemma fileIndex_B_exit [simp]: "fileIndex (B_exit w) = fileIndex w"
  by (simp add: B_exit_def)

lemma fileIndex_s8_persist [simp]: "fileIndex (snd (s8_persist l w)) = fileIndex w"
  by (auto simp: s8_persist_def s8_catch_def Let_def unlinkSync_def copyFileSync_def
           split: sum.splits option.splits if_splits)

lemma fileIndex_B_check_output [simp]: "fileIndex (snd (B_check_output l w)) = fileIndex w"
  by (simp add: B_check_output_def B_catch_def)











text \<open>The index taken is the one written into the filename.\<close>

lemma begin_request_filename:
  "begin_request ep req uuid w = (Await c l, w') \<Longrightarrow>
     filename l = (if ep = S8_tts then ''tts_'' else ''t2a_'') @
                  show_number (currentIndex l) @ ''.'' @ format l"
  by (cases ep)
     (auto simp: s8_tts_begin_def A_tts_begin_def A_complete_begin_def B_begin_def
        s8_catch_def A_tts_catch_def A_complete_catch_def B_catch_def respond_def Let_def
        split: option.splits sum.splits if_splits)





section \<open>Probe failures\<close>

text \<open>Handlers that resume alike under two environments answer alike.\<close>

lemma advance_cong:
  "(\<And>c l w. resume ep e1 c l w = resume ep e2 c l w) \<Longrightarrow> advance ep e1 t w = advance ep e2 t w"
  by (cases t) simp_all

lemma handle_cong:
  assumes "\<And>c l w. resume ep e1 c l w = resume ep e2 c l w"
  shows "handle ep req uuid e1 w = handle ep req uuid e2 w"
proof -
  have "advance ep e1 = advance ep e2"
    using advance_cong [of ep e1 e2, OF assms] by (intro ext)
  then show ?thesis
    by (simp add: handle_def)
qed

text \<open>A probe that reports five seconds wherever the given one fails.\<close>

lemma getAudioDuration_fallback:
  "getAudioDuration (\<lambda>p. case probe p of ProbeErr m \<Rightarrow> ProbeOk (Metadata (Some (Format (JNum 5)))) | ProbeOk md \<Rightarrow> ProbeOk md) filePath
     = getAudioDuration probe filePath"
  by (simp add: getAudioDuration_def optional_duration_def js_or_def split: probe_outcome.splits)

lemma resume_fallback:
  assumes "ep \<in> {S8_tts, A_tts, A_complete}"
  shows "resume ep (e\<lparr>ffprobe := \<lambda>p. case ffprobe e p of ProbeErr m \<Rightarrow> ProbeOk (Metadata (Some (Format (JNum 5)))) | ProbeOk md \<Rightarrow> ProbeOk md\<rparr>) c l w
       = resume ep e c l w"
  using assms getAudioDuration_fallback [of "ffprobe e"]
  by (cases c)
     (auto simp: s8_resume_def A_tts_resume_def A_complete_resume_def generateSpeech_def
        convertToWav_def)

text \<open>
  Claim C2, as the code has it. In \<^verbatim>\<open>s8.js\<close> and in variant A a failed probe
  resolves with 5, and the whole request runs exactly as if the probe had reported five
  seconds wherever it failed, so the failure is never surfaced. In variant B the helper
  rejects with the probe's error and both handlers answer 500.
\<close>

theorem probe_failure_not_surfaced:
  "(\<forall>m. probe filePath = ProbeErr m \<longrightarrow> getAudioDuration probe filePath = Resolved (JNum 5)) \<and>
   (\<forall>ep \<in> {S8_tts, A_tts, A_complete}.
      handle ep req uuid e w =
      handle ep req uuid
        (e\<lparr>ffprobe := \<lambda>p. case ffprobe e p of
                              ProbeErr m \<Rightarrow> ProbeOk (Metadata (Some (Format (JNum 5))))
                            | ProbeOk md \<Rightarrow> ProbeOk md\<rparr>) w) \<and>
   (\<forall>m. probe filePath = ProbeErr m \<longrightarrow>
      B_getAudioDuration probe filePath = Rejected (Error m) \<and>
      fst (B_tts_after_duration (B_getAudioDuration probe filePath) l w) =
        respond (JsonError 500 (if m = [] then ''Internal server error'' else m) None) [] \<and>
      fst (B_json_after_duration (B_getAudioDuration probe filePath) l w) =
        respond (JsonError 500 (if m = [] then ''Internal server error'' else m) None) [])"
proof (intro conjI ballI allI impI)
  fix m assume "probe filePath = ProbeErr m"
  then show "getAudioDuration probe filePath = Resolved (JNum 5)"
    by (simp add: getAudioDuration_def)
next
  fix ep assume ep: "ep \<in> {S8_tts, A_tts, A_complete}"
  show "handle ep req uuid e w =
      handle ep req uuid
        (e\<lparr>ffprobe := \<lambda>p. case ffprobe e p of
                              ProbeErr m \<Rightarrow> ProbeOk (Metadata (Some (Format (JNum 5))))
                            | ProbeOk md \<Rightarrow> ProbeOk md\<rparr>) w"
    by (rule handle_cong) (simp add: resume_fallback [OF ep])
next
  fix m assume "probe filePath = ProbeErr m"
  then show "B_getAudioDuration probe filePath = Rejected (Error m)"
    by (simp add: B_getAudioDuration_def)
next
  fix m assume "probe filePath = ProbeErr m"
  then show "fst (B_tts_after_duration (B_getAudioDuration probe filePath) l w) =
        respond (JsonError 500 (if m = [] then ''Internal server error'' else m) None) []"
    by (simp add: B_getAudioDuration_def B_tts_after_duration_def B_catch_def)
next
  fix m assume "probe filePath = ProbeErr m"
  then show "fst (B_json_after_duration (B_getAudioDuration probe filePath) l w) =
        respond (JsonError 500 (if m = [] then ''Internal server error'' else m) None) []"
    by (simp add: B_getAudioDuration_def B_json_after_duration_def B_catch_def)
qed

theorem probe_failure_not_surfaced_witness:
  "getAudioDuration (\<lambda>p. ProbeErr ''ffprobe exited with code 1'') ''temp/u1.mp3'' = Resolved (JNum 5) \<and>
   S8_tts \<in> {S8_tts, A_tts, A_complete} \<and>
   fst (handle S8_tts \<lparr>req_text = JStr ''Hello'', req_lang = JStr ''english'', req_file = JStr ''mp3''\<rparr>
          ''u1''
          \<lparr>gtts = (\<lambda>lc t. ToolOk ''ID3''), ffmpeg = (\<lambda>c. ToolOk ''RIFF''),
           ffprobe = (\<lambda>p. ProbeErr ''ffprobe exited with code 1'')\<rparr>
          \<lparr>fileIndex = 1, files = Map.empty\<rparr>)
     = respond (JsonOk \<lparr>fi_filename = ''tts_1.mp3'', fi_format = ''mp3'', fi_duration = JNum 5,
                          fi_size = 3, fi_language = JStr ''en'',
                          fi_language_name = JStr ''English'', fi_text_length = 5\<rparr> None) [] \<and>
   B_getAudioDuration (\<lambda>p. ProbeErr ''ffprobe exited with code 1'') ''temp/u1.mp3''
     = Rejected (Error ''ffprobe exited with code 1'')"
proof -
  let ?req = "\<lparr>req_text = JStr ''Hello'', req_lang = JStr ''english'', req_file = JStr ''mp3''\<rparr>"
  let ?e = "\<lparr>gtts = (\<lambda>lc t. ToolOk ''ID3''), ffmpeg = (\<lambda>c. ToolOk ''RIFF''),
             ffprobe = (\<lambda>p. ProbeErr ''ffprobe exited with code 1'')\<rparr>"
  let ?w = "\<lparr>fileIndex = 1, files = Map.empty\<rparr>"
  note inst = probe_failure_not_surfaced
    [of "\<lambda>p. ProbeErr ''ffprobe exited with code 1''" "''temp/u1.mp3''" ?req "''u1''" ?e ?w]
  have mem: "S8_tts \<in> {S8_tts, A_tts, A_complete}" by simp
  have p: "(\<lambda>p. ProbeErr ''ffprobe exited with code 1'') ''temp/u1.mp3''
           = ProbeErr ''ffprobe exited with code 1''" by simp
  note a = inst [THEN conjunct1, rule_format, OF p]
  note b = inst [THEN conjunct2, THEN conjunct2, rule_format, OF p, THEN conjunct1]
  note eq = inst [THEN conjunct2, THEN conjunct1, rule_format, OF mem]
  have ev: "fst (handle S8_tts ?req ''u1''
        (?e\<lparr>ffprobe := \<lambda>p. case ffprobe ?e p of
                              ProbeErr m \<Rightarrow> ProbeOk (Metadata (Some (Format (JNum 5))))
                            | ProbeOk md \<Rightarrow> ProbeOk md\<rparr>) ?w)
      = respond (JsonOk \<lparr>fi_filename = ''tts_1.mp3'', fi_format = ''mp3'', fi_duration = JNum 5,
                          fi_size = 3, fi_language = JStr ''en'',
                          fi_language_name = JStr ''English'', fi_text_length = 5\<rparr> None) []"
    by (simp add: js_defs fs_defs handler_defs Let_def show_number.simps)
  have c: "fst (handle S8_tts ?req ''u1'' ?e ?w)
      = respond (JsonOk \<lparr>fi_filename = ''tts_1.mp3'', fi_format = ''mp3'', fi_duration = JNum 5,
                          fi_size = 3, fi_language = JStr ''en'',
                          fi_language_name = JStr ''English'', fi_text_length = 5\<rparr> None) []"
    by (subst eq) (rule ev)
  show ?thesis
    by (intro conjI a b c mem)
qed

text \<open>
  The claim as stated fails in variant B: a failed probe rejects, and the request is
  answered 500.
\<close>

theorem probe_failure_surfaced_in_variant_B:
  "B_getAudioDuration (\<lambda>p. ProbeErr ''ffprobe exited with code 1'') ''temp/u1.mp3''
     = Rejected (Error ''ffprobe exited with code 1'') \<and>
   fst (handle B_tts \<lparr>req_text = JStr ''Hello'', req_lang = JStr ''english'', req_file = JStr ''mp3''\<rparr>
          ''u1''
          \<lparr>gtts = (\<lambda>lc t. ToolOk ''ID3''), ffmpeg = (\<lambda>c. ToolOk ''RIFF''),
           ffprobe = (\<lambda>p. ProbeErr ''ffprobe exited with code 1'')\<rparr>
          \<lparr>fileIndex = 1, files = Map.empty\<rparr>)
     = respond (JsonError 500 ''ffprobe exited with code 1'' None) []"
  by (simp add: js_defs fs_defs handler_defs Let_def show_number.simps)

section \<open>The WAV profile\<close>

lemma begin_wav_call_ok: "wav_call_ok uuid (fst (begin_request ep req uuid w))"
  by (cases ep)
     (auto simp: wav_call_ok_def s8_tts_begin_def A_tts_begin_def A_complete_begin_def B_begin_def
        s8_catch_def A_tts_catch_def A_complete_catch_def B_catch_def respond_def Let_def
        split: option.splits sum.splits)

lemma s8_persist_wav_call_ok:
  "fileId l = uuid \<Longrightarrow> mp3Path l = path_join TEMP_DIR (uuid @ ''.mp3'') \<Longrightarrow>
   wav_call_ok uuid (fst (s8_persist l w))"
  by (auto simp: wav_call_ok_def s8_persist_def s8_catch_def respond_def Let_def split: sum.splits)

lemma B_check_output_wav_call_ok:
  "fileId l = uuid \<Longrightarrow> mp3Path l = path_join TEMP_DIR (uuid @ ''.mp3'') \<Longrightarrow>
   wav_call_ok uuid (fst (B_check_output l w))"
  by (auto simp: wav_call_ok_def B_check_output_def B_catch_def respond_def)

lemma resume_wav_call_ok:
  assumes "wav_call_ok uuid (Await c l)"
  shows "wav_call_ok uuid (fst (resume ep e c l w))"
proof -
  from assms have l: "fileId l = uuid" "mp3Path l = path_join TEMP_DIR (uuid @ ''.mp3'')"
    by (simp_all add: wav_call_ok_def)
  show ?thesis
  proof (cases ep)
    case S8_tts
    with l show ?thesis
      by (cases c)
         (auto simp: s8_resume_def s8_after_speech_def s8_after_wav_def s8_after_duration_def
            s8_catch_def respond_def crashed_def Let_def s8_persist_wav_call_ok
            wav_call_ok_def [of uuid "Done _"] wav_call_ok_def [of uuid "Await _ _"]
            split: prod.splits settled.splits sum.splits)
  next
    case A_tts
    with l show ?thesis
      by (cases c)
         (auto simp: A_tts_resume_def A_tts_after_speech_def A_tts_after_wav_def
            A_tts_after_duration_def A_tts_catch_def respond_def crashed_def Let_def
            wav_call_ok_def split: prod.splits settled.splits sum.splits)
  next
    case A_complete
    with l show ?thesis
      by (cases c)
         (auto simp: A_complete_resume_def A_complete_after_speech_def A_complete_after_wav_def
            A_complete_after_duration_def A_complete_catch_def respond_def crashed_def Let_def
            wav_call_ok_def split: prod.splits settled.splits sum.splits)
  next
    case B_tts
    with l show ?thesis
      by (cases c)
         (auto simp: B_tts_resume_def B_after_speech_def B_after_wav_def
            B_tts_after_duration_def B_catch_def respond_def crashed_def Let_def
            B_check_output_wav_call_ok
            wav_call_ok_def [of uuid "Done _"] wav_call_ok_def [of uuid "Await _ _"]
            split: prod.splits settled.splits sum.splits option.splits)
  next
    case B_json
    with l show ?thesis
      by (cases c)
         (auto simp: B_json_resume_def B_after_speech_def B_after_wav_def
            B_json_after_duration_def B_catch_def respond_def crashed_def Let_def
            B_check_output_wav_call_ok
            wav_call_ok_def [of uuid "Done _"] wav_call_ok_def [of uuid "Await _ _"]
            split: prod.splits settled.splits sum.splits)
  qed
qed

lemma advance_wav_call_ok:
  "wav_call_ok uuid t \<Longrightarrow> wav_call_ok uuid (fst (advance ep e t w))"
  by (cases t) (simp_all add: resume_wav_call_ok)

lemma resume_one_command:
  assumes "wav_call_ok uuid (Await c l)" and "ep \<in> {S8_tts, A_tts, A_complete}"
  shows "resume ep (e\<lparr>ffmpeg := \<lambda>cmd. ffmpeg e (wav_options (path_join TEMP_DIR (uuid @ ''.mp3''))
                                                         (path_join TEMP_DIR (uuid @ ''.wav'')))\<rparr>) c l w
       = resume ep e c l w"
  using assms
  by (cases c)
     (auto simp: wav_call_ok_def s8_resume_def A_tts_resume_def A_complete_resume_def
        generateSpeech_def convertToWav_def)

lemma B_resume_one_command:
  assumes "wav_call_ok uuid (Await c l)" and "ep \<in> {B_tts, B_json}"
  shows "resume ep (e\<lparr>ffmpeg := \<lambda>cmd. ffmpeg e (B_wav_options (path_join TEMP_DIR (uuid @ ''.mp3''))
                                                           (path_join TEMP_DIR (uuid @ ''.wav'')))\<rparr>) c l w
       = resume ep e c l w"
  using assms
  by (cases c)
     (auto simp: wav_call_ok_def B_tts_resume_def B_json_resume_def
        generateSpeech_def B_convertToWav_def)

lemma handle_one_command:
  assumes eq: "\<And>c l w. wav_call_ok uuid (Await c l) \<Longrightarrow> resume ep e' c l w = resume ep e c l w"
  shows "handle ep req uuid e' w = handle ep req uuid e w"
proof -
  have adv: "advance ep e' t v = advance ep e t v" if "wav_call_ok uuid t" for t v
    using that by (cases t) (simp_all add: eq)
  obtain t0 w0 where b: "begin_request ep req uuid w = (t0, w0)"
    by (cases "begin_request ep req uuid w")
  obtain t1 w1 where a1: "advance ep e t0 w0 = (t1, w1)"
    by (cases "advance ep e t0 w0")
  obtain t2 w2 where a2: "advance ep e t1 w1 = (t2, w2)"
    by (cases "advance ep e t1 w1")
  have i0: "wav_call_ok uuid t0"
    using begin_wav_call_ok [of uuid ep req w] b by simp
  have i1: "wav_call_ok uuid t1"
    using advance_wav_call_ok [OF i0, of ep e w0] a1 by simp
  have i2: "wav_call_ok uuid t2"
    using advance_wav_call_ok [OF i1, of ep e w1] a2 by simp
  show ?thesis
    using b a1 a2 adv [OF i0, of w0] adv [OF i1, of w1] adv [OF i2, of w2]
    by (simp add: handle_def)
qed

text \<open>A WAV request whose speech was synthesised goes on to the conversion.\<close>

lemma wav_request_converts:
  assumes "gtts e lc tx = ToolOk b" and "format l = ''wav''"
  shows "\<exists>l'. fst (resume ep e (GenerateSpeech tx lc p) l w)
            = Await (ConvertToWav (mp3Path l) (path_join TEMP_DIR (fileId l @ ''.wav''))) l'"
  using assms
  by (cases ep)
     (simp_all add: s8_resume_def A_tts_resume_def A_complete_resume_def B_tts_resume_def
        B_json_resume_def generateSpeech_def tool_writes_def s8_after_speech_def
        A_tts_after_speech_def A_complete_after_speech_def B_after_speech_def Let_def)

text \<open>
  Claim C6, as the code has it. Whatever the request, a handler of \<^verbatim>\<open>s8.js\<close> or of
  variant A depends on the media tool only through its answer to one command: WAV,
  \<^verbatim>\<open>pcm_s16le\<close> (16-bit PCM), 1 channel, 22050 Hz, from the request's MP3 to the
  request's WAV. A handler of variant B depends on it only through the answer to the
  command with 2 channels and 44100 Hz. The profile is fixed within a variant, and differs
  between variants. On every endpoint a request with format wav whose speech was
  synthesised goes on to await that conversion.
\<close>

theorem wav_profile_per_variant:
  "(\<forall>ep \<in> {S8_tts, A_tts, A_complete}.
      handle ep req uuid e w =
      handle ep req uuid
        (e\<lparr>ffmpeg := \<lambda>cmd. ffmpeg e
              \<lparr>ffmpeg_input = path_join TEMP_DIR (uuid @ ''.mp3''), toFormat = ''wav'',
               audioCodec = ''pcm_s16le'', audioChannels = 1, audioFrequency = 22050,
               ffmpeg_save = path_join TEMP_DIR (uuid @ ''.wav'')\<rparr>\<rparr>) w) \<and>
   (\<forall>ep \<in> {B_tts, B_json}.
      handle ep req uuid e w =
      handle ep req uuid
        (e\<lparr>ffmpeg := \<lambda>cmd. ffmpeg e
              \<lparr>ffmpeg_input = path_join TEMP_DIR (uuid @ ''.mp3''), toFormat = ''wav'',
               audioCodec = ''pcm_s16le'', audioChannels = 2, audioFrequency = 44100,
               ffmpeg_save = path_join TEMP_DIR (uuid @ ''.wav'')\<rparr>\<rparr>) w) \<and>
   (\<forall>ep b. gtts e lc tx = ToolOk b \<and> format l = ''wav'' \<longrightarrow>
      (\<exists>l'. fst (resume ep e (GenerateSpeech tx lc p) l v)
             = Await (ConvertToWav (mp3Path l) (path_join TEMP_DIR (fileId l @ ''.wav''))) l'))"
proof -
  have mono: "handle ep req uuid e w =
      handle ep req uuid
        (e\<lparr>ffmpeg := \<lambda>cmd. ffmpeg e
              \<lparr>ffmpeg_input = path_join TEMP_DIR (uuid @ ''.mp3''), toFormat = ''wav'',
               audioCodec = ''pcm_s16le'', audioChannels = 1, audioFrequency = 22050,
               ffmpeg_save = path_join TEMP_DIR (uuid @ ''.wav'')\<rparr>\<rparr>) w"
    if ep: "ep \<in> {S8_tts, A_tts, A_complete}" for ep
  proof -
    have "handle ep req uuid
            (e\<lparr>ffmpeg := \<lambda>cmd. ffmpeg e (wav_options (path_join TEMP_DIR (uuid @ ''.mp3''))
                                                     (path_join TEMP_DIR (uuid @ ''.wav'')))\<rparr>) w
          = handle ep req uuid e w"
      by (rule handle_one_command) (rule resume_one_command [OF _ ep])
    then show ?thesis
      by (simp add: wav_options_def)
  qed
  have stereo: "handle ep req uuid e w =
      handle ep req uuid
        (e\<lparr>ffmpeg := \<lambda>cmd. ffmpeg e
              \<lparr>ffmpeg_input = path_join TEMP_DIR (uuid @ ''.mp3''), toFormat = ''wav'',
               audioCodec = ''pcm_s16le'', audioChannels = 2, audioFrequency = 44100,
               ffmpeg_save = path_join TEMP_DIR (uuid @ ''.wav'')\<rparr>\<rparr>) w"
    if ep: "ep \<in> {B_tts, B_json}" for ep
  proof -
    have "handle ep req uuid
            (e\<lparr>ffmpeg := \<lambda>cmd. ffmpeg e (B_wav_options (path_join TEMP_DIR (uuid @ ''.mp3''))
                                                       (path_join TEMP_DIR (uuid @ ''.wav'')))\<rparr>) w
          = handle ep req uuid e w"
      by (rule handle_one_command) (rule B_resume_one_command [OF _ ep])
    then show ?thesis
      by (simp add: B_wav_options_def)
  qed
  have conv: "\<exists>l'. fst (resume ep e (GenerateSpeech tx lc p) l v)
             = Await (ConvertToWav (mp3Path l) (path_join TEMP_DIR (fileId l @ ''.wav''))) l'"
    if "gtts e lc tx = ToolOk b \<and> format l = ''wav''" for ep b
    using that wav_request_converts [of e lc tx b l ep p v] by simp
  show ?thesis
    by (intro conjI ballI allI impI) (rule mono, assumption, rule stereo, assumption, rule conv, assumption)
qed

theorem wav_profile_per_variant_witness:
  "A_tts \<in> {S8_tts, A_tts, A_complete} \<and>
   handle A_tts \<lparr>req_text = JStr ''Hello'', req_lang = JStr ''hindi'', req_file = JStr ''wav''\<rparr> ''u1''
     \<lparr>gtts = (\<lambda>lc t. ToolOk ''ID3''),
      ffmpeg = (\<lambda>c. if audioChannels c = 1 \<and> audioFrequency c = 22050 then ToolOk ''RIFF''
                     else ToolFail ''not the mono 22050 Hz profile'' None),
      ffprobe = (\<lambda>p. ProbeOk (Metadata (Some (Format (JNum 2)))))\<rparr>
     \<lparr>fileIndex = 1, files = Map.empty\<rparr>
   = (respond (AudioStream ''audio/wav''
                 [(''Content-Disposition'', JStr (''attachment; filename='' @ CHR 0x22 # ''t2a_1.wav'' @ [CHR 0x22])),
                  (''X-Audio-Duration'', JNum 2), (''X-File-Size'', JNum 4)] ''RIFF'')
              [''temp/u1.mp3'', ''temp/u1.wav''],
      \<lparr>fileIndex = 2, files = [''temp/u1.mp3'' \<mapsto> ''ID3'', ''temp/u1.wav'' \<mapsto> ''RIFF'']\<rparr>) \<and>
   B_json \<in> {B_tts, B_json} \<and>
   (\<exists>l'. fst (resume A_tts
              \<lparr>gtts = (\<lambda>lc t. ToolOk ''ID3''),
               ffmpeg = (\<lambda>c. if audioChannels c = 1 \<and> audioFrequency c = 22050 then ToolOk ''RIFF''
                              else ToolFail ''not the mono 22050 Hz profile'' None),
               ffprobe = (\<lambda>p. ProbeOk (Metadata (Some (Format (JNum 2)))))\<rparr>
              (GenerateSpeech (JStr ''Hello'') (JStr ''hi'') ''temp/u1.mp3'')
              \<lparr>body_text = JStr ''Hello'', format = ''wav'', langCode = JStr ''hi'',
               langName = JStr ''Hindi'', fileId = ''u1'', filename = ''t2a_1.wav'',
               currentIndex = 1, mp3Path = ''temp/u1.mp3'', outputPath = ''temp/u1.mp3'',
               mimeType = ''audio/mpeg'', tempFiles = [''temp/u1.mp3'']\<rparr>
              \<lparr>fileIndex = 2, files = Map.empty\<rparr>)
          = Await (ConvertToWav ''temp/u1.mp3'' ''temp/u1.wav'') l')"
proof -
  let ?req = "\<lparr>req_text = JStr ''Hello'', req_lang = JStr ''hindi'', req_file = JStr ''wav''\<rparr>"
  let ?e = "\<lparr>gtts = (\<lambda>lc t. ToolOk ''ID3''),
      ffmpeg = (\<lambda>c. if audioChannels c = 1 \<and> audioFrequency c = 22050 then ToolOk ''RIFF''
                     else ToolFail ''not the mono 22050 Hz profile'' None),
      ffprobe = (\<lambda>p. ProbeOk (Metadata (Some (Format (JNum 2)))))\<rparr>"
  let ?w = "\<lparr>fileIndex = 1, files = Map.empty\<rparr>"
  let ?l = "\<lparr>body_text = JStr ''Hello'', format = ''wav'', langCode = JStr ''hi'',
               langName = JStr ''Hindi'', fileId = ''u1'', filename = ''t2a_1.wav'',
               currentIndex = 1, mp3Path = ''temp/u1.mp3'', outputPath = ''temp/u1.mp3'',
               mimeType = ''audio/mpeg'', tempFiles = [''temp/u1.mp3'']\<rparr>"
  let ?v = "\<lparr>fileIndex = 2, files = Map.empty\<rparr>"
  note inst = wav_profile_per_variant
    [of ?req "''u1''" ?e ?w "JStr ''hi''" "JStr ''Hello''" ?l "''temp/u1.mp3''" ?v]
  have mem: "A_tts \<in> {S8_tts, A_tts, A_complete}" "B_json \<in> {B_tts, B_json}" by simp_all
  have hyp: "gtts ?e (JStr ''hi'') (JStr ''Hello'') = ToolOk ''ID3'' \<and> format ?l = ''wav''"
    by simp
  have wavp: "path_join TEMP_DIR (''u1'' @ ''.wav'') = ''temp/u1.wav''"
    by (simp add: fs_defs)
  from inst [THEN conjunct2, THEN conjunct2, rule_format, OF hyp, of A_tts]
  have conv: "\<exists>l'. fst (resume A_tts ?e (GenerateSpeech (JStr ''Hello'') (JStr ''hi'') ''temp/u1.mp3'') ?l ?v)
          = Await (ConvertToWav ''temp/u1.mp3'' ''temp/u1.wav'') l'"
    by (simp only: wavp locals.select_convs)
  from inst [THEN conjunct1, rule_format, OF mem(1)]
  have "handle A_tts ?req ''u1'' ?e ?w =
      handle A_tts ?req ''u1''
        (?e\<lparr>ffmpeg := \<lambda>cmd. ffmpeg ?e
              \<lparr>ffmpeg_input = path_join TEMP_DIR (''u1'' @ ''.mp3''), toFormat = ''wav'',
               audioCodec = ''pcm_s16le'', audioChannels = 1, audioFrequency = 22050,
               ffmpeg_save = path_join TEMP_DIR (''u1'' @ ''.wav'')\<rparr>\<rparr>) ?w" .
  also have "\<dots> = (respond (AudioStream ''audio/wav''
                 [(''Content-Disposition'', JStr (''attachment; filename='' @ CHR 0x22 # ''t2a_1.wav'' @ [CHR 0x22])),
                  (''X-Audio-Duration'', JNum 2), (''X-File-Size'', JNum 4)] ''RIFF'')
              [''temp/u1.mp3'', ''temp/u1.wav''],
      \<lparr>fileIndex = 2, files = [''temp/u1.mp3'' \<mapsto> ''ID3'', ''temp/u1.wav'' \<mapsto> ''RIFF'']\<rparr>)"
    by (simp add: js_defs fs_defs handler_defs Let_def show_number.simps)
  finally have h: "handle A_tts ?req ''u1'' ?e ?w = (respond (AudioStream ''audio/wav''
                 [(''Content-Disposition'', JStr (''attachment; filename='' @ CHR 0x22 # ''t2a_1.wav'' @ [CHR 0x22])),
                  (''X-Audio-Duration'', JNum 2), (''X-File-Size'', JNum 4)] ''RIFF'')
              [''temp/u1.mp3'', ''temp/u1.wav''],
      \<lparr>fileIndex = 2, files = [''temp/u1.mp3'' \<mapsto> ''ID3'', ''temp/u1.wav'' \<mapsto> ''RIFF'']\<rparr>)" .
  show ?thesis
    by (intro conjI mem h conv)
qed

text \<open>
  The claim as stated fails in variant B: with a tool that accepts only the mono 22050 Hz
  profile, a WAV request to variant B fails.
\<close>

theorem variant_B_wav_profile_differs:
  "audioChannels (B_wav_options ''temp/u1.mp3'' ''temp/u1.wav'') = 2 \<and>
   audioFrequency (B_wav_options ''temp/u1.mp3'' ''temp/u1.wav'') = 44100 \<and>
   fst (handle B_tts \<lparr>req_text = JStr ''Hello'', req_lang = JStr ''hindi'', req_file = JStr ''wav''\<rparr> ''u1''
     \<lparr>gtts = (\<lambda>lc t. ToolOk ''ID3''),
      ffmpeg = (\<lambda>c. if audioChannels c = 1 \<and> audioFrequency c = 22050 then ToolOk ''RIFF''
                     else ToolFail ''not the mono 22050 Hz profile'' None),
      ffprobe = (\<lambda>p. ProbeOk (Metadata (Some (Format (JNum 2)))))\<rparr>
     \<lparr>fileIndex = 1, files = Map.empty\<rparr>)
   = respond (JsonError 500 ''not the mono 22050 Hz profile'' None) []"
  by (simp add: js_defs fs_defs handler_defs Let_def show_number.simps)

section \<open>Persisted audio\<close>






lemma failed_not_ok: "failed (Done out) \<Longrightarrow> sent out \<noteq> Some (JsonOk info a)"
  by (auto simp: failed_def)

lemma failed_not_Await [simp]: "\<not> failed (Await c l)"
  by (simp add: failed_def)










section \<open>Input validation\<close>

text \<open>A handler that answers before its first \<^verbatim>\<open>await\<close> is finished.\<close>

lemma handle_Done:
  "begin_request ep req uuid w = (Done out, w0) \<Longrightarrow> handle ep req uuid e w = (Done out, w0)"
  by (simp add: handle_def)

lemma validateText_long:
  "length s > 5000 \<Longrightarrow>
   validateText (JStr s) = Some (if trim s = [] then ''Invalid text''
                                 else ''Text too long (max 5000 chars)'')"
  by (auto simp: validateText_def)

lemma validateText_invalid:
  "\<not> truthy v \<or> typeof v \<noteq> ''string'' \<or> trim (str_of v) = [] \<Longrightarrow>
   validateText v = Some ''Invalid text''"
  by (auto simp: validateText_def)

lemma validateText_rejects:
  assumes "validateText (req_text req) = Some m" and "ep \<in> {S8_tts, A_tts, A_complete}"
  shows "handle ep req uuid e w = (respond (JsonError 400 m None) [], w)"
proof -
  from assms have "begin_request ep req uuid w = (respond (JsonError 400 m None) [], w)"
    by (auto simp: s8_tts_begin_def A_tts_begin_def A_complete_begin_def)
  then show ?thesis
    by (simp add: respond_def handle_Done)
qed

lemma B_text_rejects:
  assumes "\<not> truthy (req_text req) \<or>
           (typeof (req_text req) = ''string'' \<and> trim (str_of (req_text req)) = [])"
      and "ep \<in> {B_tts, B_json}"
  shows "handle ep req uuid e w =
           (respond (JsonError 400 ''Text field is required and cannot be empty'' None) [], w)"
proof -
  from assms have "begin_request ep req uuid w =
           (respond (JsonError 400 ''Text field is required and cannot be empty'' None) [], w)"
    by (auto simp: B_begin_def)
  then show ?thesis
    by (simp add: respond_def handle_Done)
qed

lemma B_text_throws:
  assumes "truthy (req_text req)" and "typeof (req_text req) \<noteq> ''string''"
      and "ep \<in> {B_tts, B_json}"
  shows "handle ep req uuid e w =
           (respond (JsonError 500 ''text.trim is not a function'' None) [], w)"
proof -
  from assms have "begin_request ep req uuid w =
           (respond (JsonError 500 ''text.trim is not a function'' None) [], w)"
    by (auto simp: B_begin_def B_catch_def)
  then show ?thesis
    by (simp add: respond_def handle_Done)
qed

lemma unsupported_language_rejects:
  assumes "validateText (req_text req) = None"
      and "toLowerCase (js_or (req_lang req) (JStr ''english'')) = Inr language"
      and "toLowerCase (js_or (req_file req) (JStr ''mp3'')) = Inr fmt"
      and "\<not> truthy (js_get LANGUAGE_MAP language)"
      and "ep \<in> {S8_tts, A_tts}"
  shows "handle ep req uuid e w = (respond (JsonError 400 ''Unsupported language'' None) [], w)"
proof -
  from assms have "begin_request ep req uuid w =
      (respond (JsonError 400 ''Unsupported language'' None) [], w)"
    by (auto simp: s8_tts_begin_def A_tts_begin_def)
  then show ?thesis
    by (simp add: respond_def handle_Done)
qed

text \<open>
  Claim C4, as the code has it. On the endpoints that call \<^verbatim>\<open>validateText\<close>
  (POST /api/tts of \<^verbatim>\<open>s8.js\<close>, POST /api/tts and /api/tts/complete of variant A) a
  text of more than 5000 characters is rejected with status 400 and nothing else happens:
  with the error "Text too long (max 5000 chars)" when the text has a character that is
  not whitespace, and with "Invalid text" when it is whitespace only, since that check
  comes first. Variant B has no length limit.
\<close>

theorem long_text_rejected:
  assumes "length s > 5000" and "req_text req = JStr s" and "ep \<in> {S8_tts, A_tts, A_complete}"
  shows "handle ep req uuid e w =
           (respond (JsonError 400 (if trim s = [] then ''Invalid text''
                                    else ''Text too long (max 5000 chars)'') None) [], w)"
  using validateText_rejects [of req _ ep uuid e w] validateText_long [of s] assms
  by simp

theorem long_text_rejected_witness:
  "length (replicate 5001 CHR ''a'') > 5000 \<and>
   A_complete \<in> {S8_tts, A_tts, A_complete} \<and>
   handle A_complete
     \<lparr>req_text = JStr (replicate 5001 CHR ''a''), req_lang = JUndefined, req_file = JUndefined\<rparr>
     ''u1''
     \<lparr>gtts = (\<lambda>lc t. ToolOk ''ID3''), ffmpeg = (\<lambda>c. ToolOk ''RIFF''),
      ffprobe = (\<lambda>p. ProbeOk (Metadata (Some (Format (JNum 2)))))\<rparr>
     \<lparr>fileIndex = 1, files = Map.empty\<rparr>
   = (respond (JsonError 400 ''Text too long (max 5000 chars)'' None) [],
      \<lparr>fileIndex = 1, files = Map.empty\<rparr>)"
proof -
  have l: "length (replicate 5001 CHR ''a'') > 5000" by simp
  have m: "A_complete \<in> {S8_tts, A_tts, A_complete}" by simp
  have t: "trim (replicate 5001 CHR ''a'') \<noteq> []"
    by (simp add: trim_def js_whitespace_def)
  from long_text_rejected [OF l _ m,
      of "\<lparr>req_text = JStr (replicate 5001 CHR ''a''), req_lang = JUndefined, req_file = JUndefined\<rparr>"
         "''u1''"
         "\<lparr>gtts = (\<lambda>lc t. ToolOk ''ID3''), ffmpeg = (\<lambda>c. ToolOk ''RIFF''),
           ffprobe = (\<lambda>p. ProbeOk (Metadata (Some (Format (JNum 2)))))\<rparr>"
         "\<lparr>fileIndex = 1, files = Map.empty\<rparr>"] t l m
  show ?thesis by simp
qed

text \<open>
  The claim as stated fails twice: variant B synthesises a text of 5001 characters, and
  on \<^verbatim>\<open>s8.js\<close> 5001 blanks are rejected as invalid, not as too long.
\<close>

theorem long_text_not_always_too_long:
  "fst (handle B_tts
     \<lparr>req_text = JStr (replicate 5001 CHR ''a''), req_lang = JUndefined, req_file = JUndefined\<rparr>
     ''u1''
     \<lparr>gtts = (\<lambda>lc t. ToolOk ''ID3''), ffmpeg = (\<lambda>c. ToolOk ''RIFF''),
      ffprobe = (\<lambda>p. ProbeOk (Metadata (Some (Format (JNum 2)))))\<rparr>
     \<lparr>fileIndex = 1, files = Map.empty\<rparr>)
   = respond (AudioStream ''audio/mpeg''
                [(''Content-Disposition'', JStr (''attachment; filename='' @ CHR 0x22 # ''t2a_1.mp3'' @ [CHR 0x22])),
                 (''X-Audio-Duration'', JNum 2), (''X-Filename'', JStr ''t2a_1.mp3''),
                 (''X-File-Index'', JNum 1)] ''ID3'')
             [''temp/u1.mp3''] \<and>
   fst (handle S8_tts
     \<lparr>req_text = JStr (replicate 5001 CHR '' ''), req_lang = JUndefined, req_file = JUndefined\<rparr>
     ''u1''
     \<lparr>gtts = (\<lambda>lc t. ToolOk ''ID3''), ffmpeg = (\<lambda>c. ToolOk ''RIFF''),
      ffprobe = (\<lambda>p. ProbeOk (Metadata (Some (Format (JNum 2)))))\<rparr>
     \<lparr>fileIndex = 1, files = Map.empty\<rparr>)
   = respond (JsonError 400 ''Invalid text'' None) []"
  by (simp add: js_defs fs_defs handler_defs Let_def show_number.simps)

text \<open>
  Claim C5. The text \<^verbatim>\<open>123\<close>, a number, sent to POST /api/tts of variant B: the
  validation calls \<^verbatim>\<open>text.trim()\<close> on it, which throws, and the answer is status
  500 instead of the 400 the claim states. No file is created. (On \<^verbatim>\<open>s8.js\<close> and
  variant A every absent, non-string, empty or blank text is answered 400 with nothing
  created, and so is an absent, empty or blank text on variant B: lemmas
  \<open>validateText_invalid\<close>, \<open>validateText_rejects\<close>, \<open>B_text_rejects\<close>.)
\<close>

theorem non_string_text_in_variant_B:
  "handle B_tts \<lparr>req_text = JNum 123, req_lang = JUndefined, req_file = JUndefined\<rparr> ''u1''
     \<lparr>gtts = (\<lambda>lc t. ToolOk ''ID3''), ffmpeg = (\<lambda>c. ToolOk ''RIFF''),
      ffprobe = (\<lambda>p. ProbeOk (Metadata (Some (Format (JNum 2)))))\<rparr>
     \<lparr>fileIndex = 1, files = Map.empty\<rparr>
   = (respond (JsonError 500 ''text.trim is not a function'' None) [],
      \<lparr>fileIndex = 1, files = Map.empty\<rparr>)"
  by (simp add: js_defs fs_defs handler_defs Let_def show_number.simps)

text \<open>
  Claim C3. The language \<^verbatim>\<open>klingon\<close> sent to POST /api/tts/complete of variant A:
  the handler has no language check, takes a file index, and calls the speech engine with
  an undefined language code; with an engine that answers, the request succeeds. The other
  endpoints answer 400 "Unsupported language" (lemma \<open>unsupported_language_rejects\<close>).
\<close>

theorem complete_endpoint_skips_language_check:
  "begin_request A_complete
     \<lparr>req_text = JStr ''hi'', req_lang = JStr ''klingon'', req_file = JUndefined\<rparr> ''u1''
     \<lparr>fileIndex = 1, files = Map.empty\<rparr>
   = (Await (GenerateSpeech (JStr ''hi'') JUndefined ''temp/u1.mp3'')
        \<lparr>body_text = JStr ''hi'', format = ''mp3'', langCode = JUndefined,
         langName = JUndefined, fileId = ''u1'', filename = ''t2a_1.mp3'', currentIndex = 1,
         mp3Path = ''temp/u1.mp3'', outputPath = ''temp/u1.mp3'', mimeType = ''audio/mpeg'',
         tempFiles = [''temp/u1.mp3'']\<rparr>,
      \<lparr>fileIndex = 2, files = Map.empty\<rparr>) \<and>
   fst (handle A_complete
     \<lparr>req_text = JStr ''hi'', req_lang = JStr ''klingon'', req_file = JUndefined\<rparr> ''u1''
     \<lparr>gtts = (\<lambda>lc t. ToolOk ''ID3''), ffmpeg = (\<lambda>c. ToolOk ''RIFF''),
      ffprobe = (\<lambda>p. ProbeOk (Metadata (Some (Format (JNum 2)))))\<rparr>
     \<lparr>fileIndex = 1, files = Map.empty\<rparr>)
   = respond (JsonOk \<lparr>fi_filename = ''t2a_1.mp3'', fi_format = ''mp3'', fi_duration = JNum 2,
                        fi_size = 3, fi_language = JUndefined, fi_language_name = JUndefined,
                        fi_text_length = 2\<rparr> (Some (''ID3'', ''audio/mpeg'')))
             [''temp/u1.mp3'']"
  by (simp add: js_defs fs_defs handler_defs Let_def show_number.simps)

text \<open>
  On every variant a language named like an inherited property of the map, such as
  \<^verbatim>\<open>constructor\<close>, passes the check as well, and the engine is called with a function.
\<close>

lemma inherited_name_passes_language_check:
  "begin_request S8_tts
     \<lparr>req_text = JStr ''hi'', req_lang = JStr ''constructor'', req_file = JUndefined\<rparr> ''u1''
     \<lparr>fileIndex = 1, files = Map.empty\<rparr>
   = (Await (GenerateSpeech (JStr ''hi'') (JFunction ''constructor'') ''temp/u1.mp3'')
        \<lparr>body_text = JStr ''hi'', format = ''mp3'', langCode = JFunction ''constructor'',
         langName = JUndefined, fileId = ''u1'', filename = ''tts_1.mp3'', currentIndex = 1,
         mp3Path = ''temp/u1.mp3'', outputPath = ''temp/u1.mp3'', mimeType = [],
         tempFiles = []\<rparr>,
      \<lparr>fileIndex = 2, files = Map.empty\<rparr>)"
  by (simp add: js_defs fs_defs handler_defs Let_def show_number.simps)

section \<open>Temporary files\<close>

text \<open>
  Claim C1. A WAV request to POST /api/tts of \<^verbatim>\<open>s8.js\<close> whose conversion fails: the
  \<^verbatim>\<open>catch\<close> block answers 500 and releases nothing, so the synthesised MP3 stays in
  the temporary directory after the grace period.
\<close>

theorem s8_leaves_temp_file_on_failure:
  "(case handle S8_tts \<lparr>req_text = JStr ''hi'', req_lang = JUndefined, req_file = JStr ''wav''\<rparr>
      ''u1''
      \<lparr>gtts = (\<lambda>lc t. ToolOk ''ID3''), ffmpeg = (\<lambda>c. ToolFail ''ffmpeg exited with code 1'' None),
       ffprobe = (\<lambda>p. ProbeOk (Metadata (Some (Format (JNum 1)))))\<rparr>
      \<lparr>fileIndex = 1, files = Map.empty\<rparr>
    of (t, w) \<Rightarrow>
      t = respond (JsonError 500 ''ffmpeg exited with code 1'' None) [] \<and>
      files (grace_elapsed t w) ''temp/u1.mp3'' = Some ''ID3'')"
  by (simp add: js_defs fs_defs handler_defs Let_def show_number.simps)

text \<open>The handlers of variants A and B release the MP3 on the same failure.\<close>

lemma siblings_release_on_failure:
  "\<forall>ep \<in> {A_tts, A_complete, B_tts, B_json}.
    (case handle ep \<lparr>req_text = JStr ''hi'', req_lang = JUndefined, req_file = JStr ''wav''\<rparr>
      ''u1''
      \<lparr>gtts = (\<lambda>lc t. ToolOk ''ID3''), ffmpeg = (\<lambda>c. ToolFail ''ffmpeg exited with code 1'' None),
       ffprobe = (\<lambda>p. ProbeOk (Metadata (Some (Format (JNum 1)))))\<rparr>
      \<lparr>fileIndex = 1, files = Map.empty\<rparr>
    of (t, w) \<Rightarrow> failed t \<and> files (grace_elapsed t w) ''temp/u1.mp3'' = None)"
  by (simp add: js_defs fs_defs handler_defs failed_def Let_def show_number.simps)

text \<open>
  Both handlers of variant B release every temporary file of the request on every path:
  in \<^verbatim>\<open>catch\<close>, on the timer after the response, or in the exit hook when the
  process dies.
\<close>

lemma files_release: "files (release fs w) p = (if p \<in> set fs then None else files w p)"
  by (induction fs arbitrary: w) (auto simp: existsSync_def)

lemma in_dir_temp:
  assumes "CHR ''/'' \<notin> set uuid" and "ext = ''.mp3'' \<or> ext = ''.wav''"
  shows "in_dir TEMP_DIR (path_join TEMP_DIR (uuid @ ext))"
  using assms temp_path [of uuid ext]
  by (auto simp: in_dir_def TEMP_DIR_eq)

lemma crashed_tracked:
  assumes "CHR ''/'' \<notin> set uuid"
  shows "tracked uuid crashed (B_exit w)"
  using in_dir_temp [OF assms, of "''.mp3''"] in_dir_temp [OF assms, of "''.wav''"]
  by (simp add: tracked_def crashed_def B_exit_def)

lemma B_catch_tracked:
  assumes "\<forall>p \<in> {path_join TEMP_DIR (uuid @ ''.mp3''), path_join TEMP_DIR (uuid @ ''.wav'')}.
             files w p \<noteq> None \<longrightarrow> p \<in> set temps"
  shows "tracked uuid (fst (B_catch err temps w)) (snd (B_catch err temps w))"
  using assms by (auto simp: tracked_def B_catch_def respond_def files_release)

lemma B_begin_tracked:
  assumes "files w (path_join TEMP_DIR (uuid @ ''.mp3'')) = None"
      and "files w (path_join TEMP_DIR (uuid @ ''.wav'')) = None"
  shows "tracked uuid (fst (B_begin req uuid w)) (snd (B_begin req uuid w))"
  using assms
  by (auto simp: tracked_def B_begin_def B_catch_def respond_def Let_def split: sum.splits)

lemma B_check_output_tracked:
  assumes "\<forall>p \<in> {path_join TEMP_DIR (uuid @ ''.mp3''), path_join TEMP_DIR (uuid @ ''.wav'')}.
             files w p \<noteq> None \<longrightarrow> p \<in> set (tempFiles l)"
      and "fileId l = uuid" and "mp3Path l = path_join TEMP_DIR (uuid @ ''.mp3'')"
  shows "tracked uuid (fst (B_check_output l w)) (snd (B_check_output l w))"
  using assms
  by (auto simp: tracked_def B_check_output_def B_catch_def respond_def files_release)

lemma B_after_speech_tracked:
  assumes "\<forall>p \<in> {path_join TEMP_DIR (uuid @ ''.mp3''), path_join TEMP_DIR (uuid @ ''.wav'')}.
             files w p \<noteq> None \<longrightarrow> p \<in> set (tempFiles l)"
      and "fileId l = uuid" and "mp3Path l = path_join TEMP_DIR (uuid @ ''.mp3'')"
      and u: "CHR ''/'' \<notin> set uuid"
  shows "tracked uuid (fst (B_after_speech r l w)) (snd (B_after_speech r l w))"
proof (cases r)
  case (Resolved x)
  show ?thesis
  proof (cases "format l = ''wav''")
    case True
    with Resolved assms show ?thesis
      by (auto simp: tracked_def B_after_speech_def Let_def)
  next
    case False
    with Resolved B_check_output_tracked [OF assms(1-3)] show ?thesis
      by (simp add: B_after_speech_def)
  qed
next
  case (Rejected err)
  with B_catch_tracked [OF assms(1)] show ?thesis
    by (simp add: B_after_speech_def)
next
  case (Uncaught err)
  with crashed_tracked [OF u] show ?thesis
    by (simp add: B_after_speech_def)
qed

lemma B_after_wav_tracked:
  assumes "\<forall>p \<in> {path_join TEMP_DIR (uuid @ ''.mp3''), path_join TEMP_DIR (uuid @ ''.wav'')}.
             files w p \<noteq> None \<longrightarrow> p \<in> set (tempFiles l)"
      and "fileId l = uuid" and "mp3Path l = path_join TEMP_DIR (uuid @ ''.mp3'')"
      and u: "CHR ''/'' \<notin> set uuid"
  shows "tracked uuid (fst (B_after_wav r l w)) (snd (B_after_wav r l w))"
proof (cases r)
  case (Resolved x)
  let ?l = "l\<lparr>outputPath := path_join TEMP_DIR (fileId l @ ''.wav''), mimeType := ''audio/wav''\<rparr>"
  have "tracked uuid (fst (B_check_output ?l w)) (snd (B_check_output ?l w))"
    using assms by (intro B_check_output_tracked) simp_all
  with Resolved show ?thesis
    by (simp add: B_after_wav_def Let_def)
next
  case (Rejected err)
  with B_catch_tracked [OF assms(1)] show ?thesis
    by (simp add: B_after_wav_def)
next
  case (Uncaught err)
  with crashed_tracked [OF u] show ?thesis
    by (simp add: B_after_wav_def)
qed

lemma tool_writes_tracked:
  assumes "\<forall>p \<in> P. files w p \<noteq> None \<longrightarrow> p \<in> T" and "q \<in> T"
  shows "\<forall>p \<in> P. files (snd (tool_writes q out w)) p \<noteq> None \<longrightarrow> p \<in> T"
  using assms by (auto simp: tool_writes_def split: tool_outcome.splits option.splits)

lemma B_tts_after_duration_tracked:
  assumes "\<forall>p \<in> {path_join TEMP_DIR (uuid @ ''.mp3''), path_join TEMP_DIR (uuid @ ''.wav'')}.
             files w p \<noteq> None \<longrightarrow> p \<in> set (tempFiles l)"
      and u: "CHR ''/'' \<notin> set uuid"
  shows "tracked uuid (fst (B_tts_after_duration r l w)) (snd (B_tts_after_duration r l w))"
proof (cases r)
  case (Resolved d)
  with assms show ?thesis
    by (cases d)
       (auto simp: B_tts_after_duration_def B_catch_def respond_def tracked_def files_release
          split: sum.splits)
next
  case (Rejected err)
  with B_catch_tracked [OF assms(1)] show ?thesis
    by (simp add: B_tts_after_duration_def)
next
  case (Uncaught err)
  with crashed_tracked [OF u] show ?thesis
    by (simp add: B_tts_after_duration_def)
qed

lemma B_json_after_duration_tracked:
  assumes "\<forall>p \<in> {path_join TEMP_DIR (uuid @ ''.mp3''), path_join TEMP_DIR (uuid @ ''.wav'')}.
             files w p \<noteq> None \<longrightarrow> p \<in> set (tempFiles l)"
      and u: "CHR ''/'' \<notin> set uuid"
  shows "tracked uuid (fst (B_json_after_duration r l w)) (snd (B_json_after_duration r l w))"
proof (cases r)
  case (Resolved d)
  with assms show ?thesis
    by (auto simp: B_json_after_duration_def B_catch_def respond_def tracked_def files_release
          split: sum.splits)
next
  case (Rejected err)
  with B_catch_tracked [OF assms(1)] show ?thesis
    by (simp add: B_json_after_duration_def)
next
  case (Uncaught err)
  with crashed_tracked [OF u] show ?thesis
    by (simp add: B_json_after_duration_def)
qed

lemma B_resume_tracked:
  assumes t: "tracked uuid (Await c l) w" and u: "CHR ''/'' \<notin> set uuid"
      and ep: "ep \<in> {B_tts, B_json}"
  shows "tracked uuid (fst (resume ep e c l w)) (snd (resume ep e c l w))"
proof -
  let ?P = "{path_join TEMP_DIR (uuid @ ''.mp3''), path_join TEMP_DIR (uuid @ ''.wav'')}"
  from t have inv: "\<forall>p \<in> ?P. files w p \<noteq> None \<longrightarrow> p \<in> set (tempFiles l)"
    and l: "fileId l = uuid" "mp3Path l = path_join TEMP_DIR (uuid @ ''.mp3'')"
    by (simp_all add: tracked_def)
  show ?thesis
  proof (cases c)
    case (GenerateSpeech tx lc q)
    with t have q: "q \<in> set (tempFiles l)" by (simp add: tracked_def)
    obtain r w1 where g: "generateSpeech e tx lc q w = (r, w1)"
      by (cases "generateSpeech e tx lc q w")
    from tool_writes_tracked [OF inv q, of "gtts e lc tx"] g
    have "\<forall>p \<in> ?P. files w1 p \<noteq> None \<longrightarrow> p \<in> set (tempFiles l)"
      by (simp add: generateSpeech_def)
    from B_after_speech_tracked [OF this l u, of r] GenerateSpeech g ep show ?thesis
      by (auto simp: B_tts_resume_def B_json_resume_def)
  next
    case (ConvertToWav i q)
    with t have q: "q \<in> set (tempFiles l)" by (simp add: tracked_def)
    obtain r w1 where g: "B_convertToWav e i q w = (r, w1)"
      by (cases "B_convertToWav e i q w")
    from tool_writes_tracked [OF inv q, of "ffmpeg e (B_wav_options i q)"] g
    have "\<forall>p \<in> ?P. files w1 p \<noteq> None \<longrightarrow> p \<in> set (tempFiles l)"
      by (simp add: B_convertToWav_def)
    from B_after_wav_tracked [OF this l u, of r] ConvertToWav g ep show ?thesis
      by (auto simp: B_tts_resume_def B_json_resume_def)
  next
    case (GetAudioDuration q)
    with B_tts_after_duration_tracked [OF inv u] B_json_after_duration_tracked [OF inv u] ep
    show ?thesis
      by (auto simp: B_tts_resume_def B_json_resume_def)
  qed
qed

lemma Done_tracked:
  assumes "ep \<in> {B_tts, B_json}" and "tracked uuid (Done out) w"
  shows "tracked uuid (fst (advance ep e (Done out) w)) (snd (advance ep e (Done out) w))"
  using assms by simp

lemma B_advance_tracked:
  assumes "tracked uuid t w" and "CHR ''/'' \<notin> set uuid" and "ep \<in> {B_tts, B_json}"
  shows "tracked uuid (fst (advance ep e t w)) (snd (advance ep e t w))"
proof (cases t)
  case (Await c l)
  with B_resume_tracked [of uuid c l w ep e] assms show ?thesis by simp
next
  case (Done out)
  with assms show ?thesis by simp
qed

lemma B_handle_tracked:
  assumes ep: "ep \<in> {B_tts, B_json}" and u: "CHR ''/'' \<notin> set uuid"
      and "files w (path_join TEMP_DIR (uuid @ ''.mp3'')) = None"
      and "files w (path_join TEMP_DIR (uuid @ ''.wav'')) = None"
  shows "tracked uuid (fst (handle ep req uuid e w)) (snd (handle ep req uuid e w))"
proof -
  obtain t0 w0 where b: "begin_request ep req uuid w = (t0, w0)"
    by (cases "begin_request ep req uuid w")
  obtain t1 w1 where a1: "advance ep e t0 w0 = (t1, w1)"
    by (cases "advance ep e t0 w0")
  obtain t2 w2 where a2: "advance ep e t1 w1 = (t2, w2)"
    by (cases "advance ep e t1 w1")
  from B_begin_tracked [OF assms(3,4), of req] ep b have i0: "tracked uuid t0 w0"
    by auto
  from B_advance_tracked [OF i0 u ep, of e] a1 have i1: "tracked uuid t1 w1"
    by simp
  from B_advance_tracked [OF i1 u ep, of e] a2 have i2: "tracked uuid t2 w2"
    by simp
  from B_advance_tracked [OF i2 u ep, of e] b a1 a2 show ?thesis
    by (simp add: handle_def)
qed

lemma B_releases_temp_files:
  assumes ep: "ep \<in> {B_tts, B_json}" and u: "CHR ''/'' \<notin> set uuid"
      and fresh: "files w (path_join TEMP_DIR (uuid @ ''.mp3'')) = None"
                 "files w (path_join TEMP_DIR (uuid @ ''.wav'')) = None"
      and h: "handle ep req uuid e w = (t, w')"
  shows "files (grace_elapsed t w') (path_join TEMP_DIR (uuid @ ''.mp3'')) = None \<and>
         files (grace_elapsed t w') (path_join TEMP_DIR (uuid @ ''.wav'')) = None"
proof -
  from handle_finishes [of ep req uuid e w] h obtain out where t: "t = Done out"
    by auto
  from B_handle_tracked [OF ep u fresh, of req e] h t have "tracked uuid (Done out) w'"
    by simp
  with t show ?thesis
    by (auto simp: tracked_def grace_elapsed_def files_release)
qed

text \<open>
  Variant A tracks the WAV path only after the conversion, so a partial WAV that a failed
  conversion leaves behind is not released; variant B tracks it before.
\<close>

lemma A_leaves_partial_wav_on_failure:
  "(case handle A_tts \<lparr>req_text = JStr ''hi'', req_lang = JUndefined, req_file = JStr ''wav''\<rparr>
      ''u1''
      \<lparr>gtts = (\<lambda>lc t. ToolOk ''ID3''),
       ffmpeg = (\<lambda>c. ToolFail ''ffmpeg exited with code 1'' (Some ''RI'')),
       ffprobe = (\<lambda>p. ProbeOk (Metadata (Some (Format (JNum 1)))))\<rparr>
      \<lparr>fileIndex = 1, files = Map.empty\<rparr>
    of (t, w) \<Rightarrow>
      files (grace_elapsed t w) ''temp/u1.mp3'' = None \<and>
      files (grace_elapsed t w) ''temp/u1.wav'' = Some ''RI'')"
  by (simp add: js_defs fs_defs handler_defs Let_def show_number.simps)

end
